theory Spec2Isabelle
  imports Complex_Main
begin

section \<open>Tensors, outcomes and broadcasting\<close>

text \<open>
  The notebook \<^verbatim>\<open>SimpleGPyTorchScript.ipynb\<close> works on \<^verbatim>\<open>torch\<close> tensors of 64-bit floats.
  A float is modelled by a real number, so rounding and overflow are abstracted away.
  What the reals cannot hold, an infinity or a NaN, is the outcome \<open>NonFinite\<close>: \<^verbatim>\<open>torch\<close>
  raises nothing there, it goes on with the non-finite entries, and the model stops.
  The other outcomes are exceptions that \<^verbatim>\<open>torch\<close> or Python raise.

  A tensor is one-dimensional (\<open>T1\<close>) or two-dimensional (\<open>T2\<close>, the list of its rows,
  all of one length). A two-dimensional tensor with no rows has lost its number of
  columns in this representation.
\<close>

datatype error =
    ShapeError
  | AttributeError
  | IndexError
  | EmptyReduction
  | NonFinite
  | SurrogateError

datatype tensor = T1 "real list" | T2 "real list list"

definition ebind :: "error + 'a \<Rightarrow> ('a \<Rightarrow> error + 'b) \<Rightarrow> error + 'b" where
  "ebind r f = (case r of Inl e \<Rightarrow> Inl e | Inr a \<Rightarrow> f a)"

definition clone :: "tensor \<Rightarrow> tensor" where
  "clone x = x"

definition ncols :: "real list list \<Rightarrow> nat" where
  "ncols x = (case x of [] \<Rightarrow> 0 | r # _ \<Rightarrow> length r)"

definition col :: "real list list \<Rightarrow> nat \<Rightarrow> real list" where
  "col x j = map (\<lambda>r. r ! j) x"

fun elems :: "tensor \<Rightarrow> real list" where
  "elems (T1 v) = v"
| "elems (T2 x) = concat x"

fun tmap :: "(real \<Rightarrow> real) \<Rightarrow> tensor \<Rightarrow> tensor" where
  "tmap f (T1 v) = T1 (map f v)"
| "tmap f (T2 x) = T2 (map (map f) x)"

text \<open>
  Broadcasting of one dimension: a dimension of size one is stretched. \<open>bvec d r\<close>
  stretches the row \<open>r\<close> to the width \<open>d\<close>; \<open>bmat n d m\<close> stretches the rows \<open>m\<close> to
  \<open>n\<close> rows of width \<open>d\<close>.
\<close>

definition bvec :: "nat \<Rightarrow> real list \<Rightarrow> real list option" where
  "bvec d r =
     (if length r = 1 then Some (replicate d (hd r))
      else if length r = d then Some r
      else None)"

definition bmat :: "nat \<Rightarrow> nat \<Rightarrow> real list list \<Rightarrow> real list list option" where
  "bmat n d m =
     (if length m = 1 then map_option (replicate n) (bvec d (hd m))
      else if length m = n then those (map (bvec d) m)
      else None)"

text \<open>
  \<open>inplace f x m\<close> is \<^verbatim>\<open>x op= m\<close>: the result has the shape of \<open>x\<close>, so only \<open>m\<close> is
  stretched, and a two-dimensional \<open>m\<close> never fits a one-dimensional \<open>x\<close>.
\<close>

fun inplace :: "(real \<Rightarrow> real \<Rightarrow> real) \<Rightarrow> tensor \<Rightarrow> tensor \<Rightarrow> error + tensor" where
  "inplace f (T1 v) (T1 r) =
     (case bvec (length v) r of
        None \<Rightarrow> Inl ShapeError
      | Some r' \<Rightarrow> Inr (T1 (map2 f v r')))"
| "inplace f (T1 v) (T2 m) = Inl ShapeError"
| "inplace f (T2 x) (T1 r) =
     (if x = [] then Inr (T2 [])
      else case bvec (ncols x) r of
        None \<Rightarrow> Inl ShapeError
      | Some r' \<Rightarrow> Inr (T2 (map (\<lambda>row. map2 f row r') x)))"
| "inplace f (T2 x) (T2 m) =
     (if x = [] then Inr (T2 [])
      else case bmat (length x) (ncols x) m of
        None \<Rightarrow> Inl ShapeError
      | Some m' \<Rightarrow> Inr (T2 (map2 (map2 f) x m')))"

text \<open>
  \<open>outplace f a b\<close> is \<^verbatim>\<open>a op b\<close>: both operands are stretched to the common shape.
\<close>

definition bdim :: "nat \<Rightarrow> nat \<Rightarrow> nat option" where
  "bdim a b =
     (if a = b then Some a
      else if b = 1 then Some a
      else if a = 1 then Some b
      else None)"

fun outplace :: "(real \<Rightarrow> real \<Rightarrow> real) \<Rightarrow> tensor \<Rightarrow> tensor \<Rightarrow> error + tensor" where
  "outplace f (T1 a) (T1 b) =
     (case bdim (length a) (length b) of
        None \<Rightarrow> Inl ShapeError
      | Some d \<Rightarrow> Inr (T1 (map2 f (the (bvec d a)) (the (bvec d b)))))"
| "outplace f (T2 x) (T1 b) =
     (if x = [] then Inr (T2 [])
      else case bdim (ncols x) (length b) of
        None \<Rightarrow> Inl ShapeError
      | Some d \<Rightarrow> Inr (T2 (map (\<lambda>row. map2 f (the (bvec d row)) (the (bvec d b))) x)))"
| "outplace f (T1 a) (T2 y) =
     (if y = [] then Inr (T2 [])
      else case bdim (length a) (ncols y) of
        None \<Rightarrow> Inl ShapeError
      | Some d \<Rightarrow> Inr (T2 (map (\<lambda>row. map2 f (the (bvec d a)) (the (bvec d row))) y)))"
| "outplace f (T2 x) (T2 y) =
     (if x = [] \<or> y = [] then
        (if length x \<le> 1 \<and> length y \<le> 1 then Inr (T2 []) else Inl ShapeError)
      else case (bdim (length x) (length y), bdim (ncols x) (ncols y)) of
        (Some n, Some d) \<Rightarrow>
          Inr (T2 (map2 (map2 f) (the (bmat n d x)) (the (bmat n d y))))
      | _ \<Rightarrow> Inl ShapeError)"

text \<open>
  A division whose divisor holds a zero yields an infinity or a NaN wherever that zero
  meets an element: the outcome is \<open>NonFinite\<close> unless the result is empty.
\<close>

definition nonfinite_guard :: "tensor \<Rightarrow> error + tensor \<Rightarrow> error + tensor" where
  "nonfinite_guard d r =
     ebind r (\<lambda>t. if 0 \<in> set (elems d) \<and> elems t \<noteq> [] then Inl NonFinite else Inr t)"

definition idiv :: "tensor \<Rightarrow> tensor \<Rightarrow> error + tensor" where
  "idiv x d = nonfinite_guard d (inplace (/) x d)"

definition odiv :: "tensor \<Rightarrow> tensor \<Rightarrow> error + tensor" where
  "odiv a d = nonfinite_guard d (outplace (/) a d)"

section \<open>Reductions over dimension 0\<close>

text \<open>
  \<^verbatim>\<open>x.mean(0, keepdim=True)\<close> and \<^verbatim>\<open>x.std(0, unbiased=False, keepdim=True)\<close>: the mean and
  the population standard deviation (divisor \<open>n\<close>, no Bessel correction) of every column.
  With \<^verbatim>\<open>keepdim\<close> the result keeps the rank of its argument: one row, or one element.
  Over no rows both are NaN.
\<close>

definition mean_l :: "real list \<Rightarrow> real" where
  "mean_l v = sum_list v / real (length v)"

definition std_l :: "real list \<Rightarrow> real" where
  "std_l v = sqrt (sum_list (map (\<lambda>a. (a - mean_l v)\<^sup>2) v) / real (length v))"

fun reduce0_keep :: "(real list \<Rightarrow> real) \<Rightarrow> tensor \<Rightarrow> error + tensor" where
  "reduce0_keep f (T1 v) = (if v = [] then Inl NonFinite else Inr (T1 [f v]))"
| "reduce0_keep f (T2 x) =
     (if x = [] then Inl NonFinite
      else Inr (T2 [map (\<lambda>j. f (col x j)) [0..<ncols x]]))"

definition mean0 :: "tensor \<Rightarrow> error + tensor" where
  "mean0 x = reduce0_keep mean_l x"

definition std0 :: "tensor \<Rightarrow> error + tensor" where
  "std0 x = reduce0_keep std_l x"

text \<open>
  \<^verbatim>\<open>torch.max(x, dim=0).values\<close> and \<^verbatim>\<open>torch.min(x, dim=0).values\<close> drop the reduced
  dimension and raise on an empty one. The zero-dimensional result for a one-dimensional
  argument is written as a tensor of one element, which broadcasts the same way.
\<close>

definition max_l :: "real list \<Rightarrow> real" where
  "max_l v = fold max (tl v) (hd v)"

definition min_l :: "real list \<Rightarrow> real" where
  "min_l v = fold min (tl v) (hd v)"

fun reduce0_drop :: "(real list \<Rightarrow> real) \<Rightarrow> tensor \<Rightarrow> error + tensor" where
  "reduce0_drop f (T1 v) = (if v = [] then Inl EmptyReduction else Inr (T1 [f v]))"
| "reduce0_drop f (T2 x) =
     (if x = [] then Inl EmptyReduction
      else Inr (T1 (map (\<lambda>j. f (col x j)) [0..<ncols x])))"

section \<open>The helper classes\<close>

text \<open>
  An attribute of an object is unset until a method assigns it; reading an unset
  attribute raises \<^verbatim>\<open>AttributeError\<close>. A method that assigns attributes returns the
  updated object.
\<close>

definition attr :: "tensor option \<Rightarrow> error + tensor" where
  "attr a = (case a of None \<Rightarrow> Inl AttributeError | Some t \<Rightarrow> Inr t)"

subsection \<open>\<^verbatim>\<open>TorchStandardScaler\<close>\<close>

record TorchStandardScaler =
  mean :: "tensor option"
  std :: "tensor option"

definition new_TorchStandardScaler :: TorchStandardScaler where
  "new_TorchStandardScaler = \<lparr>mean = None, std = None\<rparr>"

definition fit :: "TorchStandardScaler \<Rightarrow> tensor \<Rightarrow> error + TorchStandardScaler" where
  "fit self x0 =
     (let x = clone x0 in
      ebind (mean0 x) (\<lambda>m.
      ebind (std0 x) (\<lambda>s.
      Inr (self\<lparr>mean := Some m, std := Some s\<rparr>))))"

definition transform :: "TorchStandardScaler \<Rightarrow> tensor \<Rightarrow> error + tensor" where
  "transform self x0 =
     (let x = clone x0 in
      ebind (attr (mean self)) (\<lambda>m.
      ebind (inplace (-) x m) (\<lambda>x1.
      ebind (attr (std self)) (\<lambda>s.
      idiv x1 (tmap (\<lambda>v. v + 1 / 10 ^ 10) s)))))"

definition fit_transform ::
    "TorchStandardScaler \<Rightarrow> tensor \<Rightarrow> error + TorchStandardScaler \<times> tensor" where
  "fit_transform self x0 =
     (let x = clone x0 in
      ebind (mean0 x) (\<lambda>m.
      ebind (std0 x) (\<lambda>s.
      ebind (inplace (-) x m) (\<lambda>x1.
      ebind (idiv x1 (tmap (\<lambda>v. v + 1 / 10 ^ 10) s)) (\<lambda>x2.
      Inr (self\<lparr>mean := Some m, std := Some s\<rparr>, x2))))))"

definition reverse :: "TorchStandardScaler \<Rightarrow> tensor \<Rightarrow> error + tensor" where
  "reverse self x0 =
     (let x = clone x0 in
      ebind (attr (std self)) (\<lambda>s.
      ebind (inplace (*) x (tmap (\<lambda>v. v + 1 / 10 ^ 10) s)) (\<lambda>x1.
      ebind (attr (mean self)) (\<lambda>m.
      inplace (+) x1 m))))"

subsection \<open>\<^verbatim>\<open>TorchNormalizer\<close>\<close>

record TorchNormalizer =
  max_attr :: "tensor option"
  min_attr :: "tensor option"

definition new_TorchNormalizer :: TorchNormalizer where
  "new_TorchNormalizer = \<lparr>max_attr = None, min_attr = None\<rparr>"

definition normalizer_fit :: "TorchNormalizer \<Rightarrow> tensor \<Rightarrow> error + TorchNormalizer" where
  "normalizer_fit self x =
     ebind (reduce0_drop max_l x) (\<lambda>mx.
     ebind (reduce0_drop min_l x) (\<lambda>mn.
     Inr (self\<lparr>max_attr := Some mx, min_attr := Some mn\<rparr>)))"

definition normalizer_transform :: "TorchNormalizer \<Rightarrow> tensor \<Rightarrow> error + tensor" where
  "normalizer_transform self x =
     ebind (attr (min_attr self)) (\<lambda>mn.
     ebind (outplace (-) (clone x) mn) (\<lambda>num.
     ebind (attr (max_attr self)) (\<lambda>mx.
     ebind (outplace (-) mx mn) (\<lambda>den.
     odiv num den))))"

definition normalizer_fit_transform ::
    "TorchNormalizer \<Rightarrow> tensor \<Rightarrow> error + TorchNormalizer \<times> tensor" where
  "normalizer_fit_transform self x =
     ebind (reduce0_drop max_l x) (\<lambda>mx.
     ebind (reduce0_drop min_l x) (\<lambda>mn.
     ebind (outplace (-) (clone x) mn) (\<lambda>num.
     ebind (outplace (-) mx mn) (\<lambda>den.
     ebind (odiv num den) (\<lambda>r.
     Inr (self\<lparr>max_attr := Some mx, min_attr := Some mn\<rparr>, r))))))"

subsection \<open>\<^verbatim>\<open>UCB\<close>\<close>

text \<open>
  The posterior that the surrogate returns: the attributes \<^verbatim>\<open>mean\<close> and \<^verbatim>\<open>stddev\<close> of
  a \<^verbatim>\<open>MultivariateNormal\<close>. The optional argument is \<^verbatim>\<open>epsilon\<close>, with default 2.
\<close>

record MultivariateNormal =
  pmean :: tensor
  stddev :: tensor

definition UCB :: "MultivariateNormal \<Rightarrow> real option \<Rightarrow> error + tensor" where
  "UCB pred eps_arg =
     (let epsilon = (case eps_arg of None \<Rightarrow> 2 | Some e \<Rightarrow> e)
      in outplace (+) (pmean pred) (tmap (\<lambda>s. epsilon * s) (stddev pred)))"

section \<open>Well-formed matrices\<close>

text \<open>A two-dimensional tensor of width \<open>d\<close>: every row has \<open>d\<close> entries.\<close>

definition rect :: "nat \<Rightarrow> real list list \<Rightarrow> bool" where
  "rect d x = list_all (\<lambda>r. length r = d) x"

section \<open>The optimization campaign\<close>

text \<open>
  A tensor of indices (\<^verbatim>\<open>idx\<close>) is a list of naturals. \<open>index_select x idx\<close> is
  \<^verbatim>\<open>x[idx]\<close>, \<open>index_fill x idx c\<close> is \<^verbatim>\<open>x[idx] = c\<close>; both raise on an index out of
  range. \<open>argmax\<close> is \<^verbatim>\<open>x.argmax()\<close>: the position, in the flattened tensor, of the
  first maximal element; it raises on an empty tensor.
\<close>

fun index_select :: "tensor \<Rightarrow> nat list \<Rightarrow> error + tensor" where
  "index_select (T1 v) ix =
     (if list_all (\<lambda>i. i < length v) ix then Inr (T1 (map (\<lambda>i. v ! i) ix))
      else Inl IndexError)"
| "index_select (T2 x) ix =
     (if list_all (\<lambda>i. i < length x) ix then Inr (T2 (map (\<lambda>i. x ! i) ix))
      else Inl IndexError)"

fun index_fill :: "tensor \<Rightarrow> nat list \<Rightarrow> real \<Rightarrow> error + tensor" where
  "index_fill (T1 v) ix c =
     (if list_all (\<lambda>i. i < length v) ix then Inr (T1 (fold (\<lambda>i u. u[i := c]) ix v))
      else Inl IndexError)"
| "index_fill (T2 x) ix c =
     (if list_all (\<lambda>i. i < length x) ix
      then Inr (T2 (fold (\<lambda>i u. u[i := replicate (ncols x) c]) ix x))
      else Inl IndexError)"

fun first_index :: "real \<Rightarrow> real list \<Rightarrow> nat" where
  "first_index m [] = 0"
| "first_index m (a # v) = (if a = m then 0 else Suc (first_index m v))"

definition argmax :: "tensor \<Rightarrow> error + nat" where
  "argmax t =
     (let v = elems t
      in if v = [] then Inl EmptyReduction else Inr (first_index (max_l v) v))"

text \<open>
  The Gaussian process is the library's (\<^verbatim>\<open>gpytorch\<close>, \<^verbatim>\<open>botorch\<close>), not the notebook's:
  it is a parameter. \<open>gp_fit\<close> stands for the construction of \<^verbatim>\<open>GPModel(X, y, likelihood)\<close>
  and \<^verbatim>\<open>fit_gpytorch_mll(mll)\<close>, \<open>gp_predict\<close> for the call \<^verbatim>\<open>gp(...)\<close> on the candidates;
  either may raise.
\<close>

record 'm surrogate =
  gp_fit :: "tensor \<Rightarrow> tensor \<Rightarrow> error + 'm"
  gp_predict :: "'m \<Rightarrow> tensor \<Rightarrow> error + MultivariateNormal"

text \<open>The variables that the loop carries: \<^verbatim>\<open>idx\<close>, \<^verbatim>\<open>X\<close> and \<^verbatim>\<open>y\<close>.\<close>

record state =
  s_idx :: "nat list"
  s_X :: tensor
  s_y :: tensor

definition loop_body ::
    "'m surrogate \<Rightarrow> TorchStandardScaler \<Rightarrow> tensor \<Rightarrow> tensor \<Rightarrow> state \<Rightarrow> error + state" where
  "loop_body gpytorch TorchStd X_pool y_pool st =
     ebind (transform TorchStd (s_X st)) (\<lambda>X1.
     ebind (fit_transform new_TorchStandardScaler (s_y st)) (\<lambda>(_, y1).
     ebind (gp_fit gpytorch X1 y1) (\<lambda>gp.
     ebind (transform TorchStd X_pool) (\<lambda>Xq.
     ebind (gp_predict gpytorch gp Xq) (\<lambda>pred.
     ebind (UCB pred None) (\<lambda>acqf_vals.
     ebind (index_fill acqf_vals (s_idx st) (- 100)) (\<lambda>masked.
     ebind (argmax masked) (\<lambda>j.
     (let idx' = s_idx st @ [j] in
     ebind (index_select X_pool idx') (\<lambda>X'.
     ebind (index_select y_pool idx') (\<lambda>y'.
     Inr \<lparr>s_idx = idx', s_X = X', s_y = y'\<rparr>)))))))))))"

text \<open>\<^verbatim>\<open>for trial in trange(op_budget)\<close>: the body, \<open>op_budget\<close> times, unless it raises.\<close>

fun for_range :: "nat \<Rightarrow> ('s \<Rightarrow> error + 's) \<Rightarrow> 's \<Rightarrow> error + 's" where
  "for_range 0 body st = Inr st"
| "for_range (Suc n) body st = ebind (body st) (for_range n body)"

text \<open>
  The campaign: the scaler \<^verbatim>\<open>TorchStd\<close> is fitted on the whole pool \<open>X_pool\<close> (the
  notebook's \<^verbatim>\<open>X_\<close>; \<open>y_pool\<close> is its \<^verbatim>\<open>y_\<close>), the first \<open>n_initial\<close> entries of
  \<^verbatim>\<open>torch.randperm(N)\<close> are the initial sample, and the loop runs.
  The notebook sets \<^verbatim>\<open>op_budget = 100\<close> and \<^verbatim>\<open>n_initial = 10\<close>; here they are arguments,
  as is the permutation that the seeded generator returns.
\<close>

definition campaign ::
    "'m surrogate \<Rightarrow> tensor \<Rightarrow> tensor \<Rightarrow> nat list \<Rightarrow> nat \<Rightarrow> nat \<Rightarrow> error + state" where
  "campaign gpytorch X_pool y_pool randperm op_budget n_initial =
     ebind (fit new_TorchStandardScaler X_pool) (\<lambda>TorchStd.
     (let idx0 = take n_initial randperm in
     ebind (index_select (clone X_pool) idx0) (\<lambda>X0.
     ebind (index_select (clone y_pool) idx0) (\<lambda>y0.
     for_range op_budget (loop_body gpytorch TorchStd X_pool y_pool)
       \<lparr>s_idx = idx0, s_X = X0, s_y = y0\<rparr>))))"

text \<open>\<open>randperm\<close> is a permutation of \<open>0, ..., N - 1\<close>.\<close>

definition is_randperm :: "nat \<Rightarrow> nat list \<Rightarrow> bool" where
  "is_randperm N p = (sort p = [0..<N])"

text \<open>
  A surrogate that never raises and returns, for the \<open>N\<close> candidates, a posterior of
  \<open>N\<close> means and \<open>N\<close> standard deviations; and one whose upper confidence bounds
  \<open>mean + 2 * stddev\<close> moreover all lie above the value \<open>-100\<close> that the loop writes over
  the scores of the evaluated candidates.
\<close>

definition surrogate_ok :: "nat \<Rightarrow> 'm surrogate \<Rightarrow> bool" where
  "surrogate_ok N g =
     ((\<forall>Xt yt. \<exists>gp. gp_fit g Xt yt = Inr gp)
      \<and> (\<forall>gp Xq. \<exists>m s. gp_predict g gp Xq = Inr \<lparr>pmean = T1 m, stddev = T1 s\<rparr>
            \<and> length m = N \<and> length s = N))"

definition scores_above_sentinel :: "nat \<Rightarrow> 'm surrogate \<Rightarrow> bool" where
  "scores_above_sentinel N g =
     ((\<forall>Xt yt. \<exists>gp. gp_fit g Xt yt = Inr gp)
      \<and> (\<forall>gp Xq. \<exists>m s. gp_predict g gp Xq = Inr \<lparr>pmean = T1 m, stddev = T1 s\<rparr>
            \<and> length m = N \<and> length s = N
            \<and> list_all (\<lambda>v. - 100 < v) (map2 (\<lambda>a b. a + 2 * b) m s)))"

text \<open>
  A concrete surrogate, used to run the campaign on small pools: mean 0 and standard
  deviation 1 at each of the \<open>N\<close> candidates.
\<close>

definition flat_surrogate :: "nat \<Rightarrow> unit surrogate" where
  "flat_surrogate N =
     \<lparr>gp_fit = (\<lambda>Xt yt. Inr ()),
      gp_predict = (\<lambda>gp Xq. Inr \<lparr>pmean = T1 (replicate N 0), stddev = T1 (replicate N 1)\<rparr>)\<rparr>"

section \<open>Invariants of the campaign\<close>

text \<open>
  The pool as the notebook builds it: \<open>N\<close> rows of \<open>d\<close> features, \<open>N \<ge> 1\<close>, and \<open>N\<close>
  responses. A state is consistent when its indices are in range and its \<^verbatim>\<open>X\<close> and \<^verbatim>\<open>y\<close>
  are the rows and responses at these indices. A scaler is fitted for width \<open>d\<close> when it
  holds one row of \<open>d\<close> means and one row of \<open>d\<close> standard deviations, none negative.
  The initial state is the one the loop is entered with.
\<close>

definition pool_ok :: "nat \<Rightarrow> real list list \<Rightarrow> real list \<Rightarrow> bool" where
  "pool_ok d xs ys = (xs \<noteq> [] \<and> rect d xs \<and> length ys = length xs)"

definition consistent :: "real list list \<Rightarrow> real list \<Rightarrow> state \<Rightarrow> bool" where
  "consistent xs ys st =
     (list_all (\<lambda>i. i < length xs) (s_idx st)
      \<and> s_X st = T2 (map (\<lambda>i. xs ! i) (s_idx st))
      \<and> s_y st = T1 (map (\<lambda>i. ys ! i) (s_idx st)))"

definition fitted :: "nat \<Rightarrow> TorchStandardScaler \<Rightarrow> bool" where
  "fitted d sc =
     (\<exists>m s. mean sc = Some (T2 [m]) \<and> std sc = Some (T2 [s])
        \<and> length m = d \<and> length s = d \<and> list_all (\<lambda>v. 0 \<le> v) s)"

definition initial_state :: "real list list \<Rightarrow> real list \<Rightarrow> nat list \<Rightarrow> nat \<Rightarrow> state" where
  "initial_state xs ys p n =
     \<lparr>s_idx = take n p, s_X = T2 (map (\<lambda>i. xs ! i) (take n p)),
      s_y = T1 (map (\<lambda>i. ys ! i) (take n p))\<rparr>"

section \<open>Tensors as objects in memory\<close>

text \<open>
  For what a method does to the arrays of its caller, tensors are objects: the memory is
  the list of the tensor objects allocated so far, and a reference is a position in it.
  \<^verbatim>\<open>x.clone()\<close> and every operation that returns a new tensor (\<^verbatim>\<open>mean\<close>, \<^verbatim>\<open>std\<close>,
  \<^verbatim>\<open>max\<close>, \<^verbatim>\<open>min\<close>, \<^verbatim>\<open>a + b\<close>, \<^verbatim>\<open>a - b\<close>, \<^verbatim>\<open>a / b\<close>) allocate an object; \<^verbatim>\<open>x -= m\<close>,
  \<^verbatim>\<open>x /= d\<close>, \<^verbatim>\<open>x *= d\<close> and \<^verbatim>\<open>x += m\<close> overwrite the object that \<open>x\<close> refers to. The
  attributes of a scaler are references. A method returns the memory it leaves, also
  when it stops with an outcome other than a result.
\<close>

type_synonym ref = nat

type_synonym memory = "tensor list"

definition alloc :: "memory \<Rightarrow> tensor \<Rightarrow> memory \<times> ref" where
  "alloc h t = (h @ [t], length h)"

record scaler_obj =
  mean_ref :: "ref option"
  std_ref :: "ref option"

record normalizer_obj =
  max_ref :: "ref option"
  min_ref :: "ref option"

definition fit_mem :: "memory \<Rightarrow> scaler_obj \<Rightarrow> ref \<Rightarrow> memory \<times> scaler_obj \<times> (error + unit)" where
  "fit_mem h self x0 =
     (let (h1, x) = alloc h (h ! x0) in
      case mean0 (h1 ! x) of
        Inl e \<Rightarrow> (h1, self, Inl e)
      | Inr m \<Rightarrow>
          (let (h2, mr) = alloc h1 m; self1 = self\<lparr>mean_ref := Some mr\<rparr> in
           case std0 (h2 ! x) of
             Inl e \<Rightarrow> (h2, self1, Inl e)
           | Inr s \<Rightarrow>
               (let (h3, sr) = alloc h2 s in (h3, self1\<lparr>std_ref := Some sr\<rparr>, Inr ()))))"

definition transform_mem :: "memory \<Rightarrow> scaler_obj \<Rightarrow> ref \<Rightarrow> memory \<times> (error + ref)" where
  "transform_mem h self x0 =
     (let (h1, x) = alloc h (h ! x0) in
      case mean_ref self of
        None \<Rightarrow> (h1, Inl AttributeError)
      | Some mr \<Rightarrow>
          (case inplace (-) (h1 ! x) (h1 ! mr) of
             Inl e \<Rightarrow> (h1, Inl e)
           | Inr v \<Rightarrow>
               (let h2 = h1[x := v] in
                case std_ref self of
                  None \<Rightarrow> (h2, Inl AttributeError)
                | Some sr \<Rightarrow>
                    (let (h3, d) = alloc h2 (tmap (\<lambda>v. v + 1 / 10 ^ 10) (h2 ! sr)) in
                     case idiv (h3 ! x) (h3 ! d) of
                       Inl e \<Rightarrow> (h3, Inl e)
                     | Inr w \<Rightarrow> (h3[x := w], Inr x)))))"

definition fit_transform_mem ::
    "memory \<Rightarrow> scaler_obj \<Rightarrow> ref \<Rightarrow> memory \<times> scaler_obj \<times> (error + ref)" where
  "fit_transform_mem h self x0 =
     (let (h1, x) = alloc h (h ! x0) in
      case mean0 (h1 ! x) of
        Inl e \<Rightarrow> (h1, self, Inl e)
      | Inr m \<Rightarrow>
          (let (h2, mr) = alloc h1 m; self1 = self\<lparr>mean_ref := Some mr\<rparr> in
           case std0 (h2 ! x) of
             Inl e \<Rightarrow> (h2, self1, Inl e)
           | Inr s \<Rightarrow>
               (let (h3, sr) = alloc h2 s; self2 = self1\<lparr>std_ref := Some sr\<rparr> in
                case inplace (-) (h3 ! x) (h3 ! mr) of
                  Inl e \<Rightarrow> (h3, self2, Inl e)
                | Inr v \<Rightarrow>
                    (let h4 = h3[x := v];
                         (h5, d) = alloc h4 (tmap (\<lambda>v. v + 1 / 10 ^ 10) (h4 ! sr)) in
                     case idiv (h5 ! x) (h5 ! d) of
                       Inl e \<Rightarrow> (h5, self2, Inl e)
                     | Inr w \<Rightarrow> (h5[x := w], self2, Inr x)))))"

definition reverse_mem :: "memory \<Rightarrow> scaler_obj \<Rightarrow> ref \<Rightarrow> memory \<times> (error + ref)" where
  "reverse_mem h self x0 =
     (let (h1, x) = alloc h (h ! x0) in
      case std_ref self of
        None \<Rightarrow> (h1, Inl AttributeError)
      | Some sr \<Rightarrow>
          (let (h2, d) = alloc h1 (tmap (\<lambda>v. v + 1 / 10 ^ 10) (h1 ! sr)) in
           case inplace (*) (h2 ! x) (h2 ! d) of
             Inl e \<Rightarrow> (h2, Inl e)
           | Inr v \<Rightarrow>
               (let h3 = h2[x := v] in
                case mean_ref self of
                  None \<Rightarrow> (h3, Inl AttributeError)
                | Some mr \<Rightarrow>
                    (case inplace (+) (h3 ! x) (h3 ! mr) of
                       Inl e \<Rightarrow> (h3, Inl e)
                     | Inr w \<Rightarrow> (h3[x := w], Inr x)))))"

definition normalizer_fit_mem ::
    "memory \<Rightarrow> normalizer_obj \<Rightarrow> ref \<Rightarrow> memory \<times> normalizer_obj \<times> (error + unit)" where
  "normalizer_fit_mem h self x =
     (case reduce0_drop max_l (h ! x) of
        Inl e \<Rightarrow> (h, self, Inl e)
      | Inr mx \<Rightarrow>
          (let (h1, xr) = alloc h mx; self1 = self\<lparr>max_ref := Some xr\<rparr> in
           case reduce0_drop min_l (h1 ! x) of
             Inl e \<Rightarrow> (h1, self1, Inl e)
           | Inr mn \<Rightarrow>
               (let (h2, nr) = alloc h1 mn in (h2, self1\<lparr>min_ref := Some nr\<rparr>, Inr ()))))"

definition normalizer_transform_mem ::
    "memory \<Rightarrow> normalizer_obj \<Rightarrow> ref \<Rightarrow> memory \<times> (error + ref)" where
  "normalizer_transform_mem h self x =
     (let (h1, c) = alloc h (h ! x) in
      case min_ref self of
        None \<Rightarrow> (h1, Inl AttributeError)
      | Some nr \<Rightarrow>
          (case outplace (-) (h1 ! c) (h1 ! nr) of
             Inl e \<Rightarrow> (h1, Inl e)
           | Inr num \<Rightarrow>
               (let (h2, a) = alloc h1 num in
                case max_ref self of
                  None \<Rightarrow> (h2, Inl AttributeError)
                | Some xr \<Rightarrow>
                    (case outplace (-) (h2 ! xr) (h2 ! nr) of
                       Inl e \<Rightarrow> (h2, Inl e)
                     | Inr den \<Rightarrow>
                         (let (h3, b) = alloc h2 den in
                          case odiv (h3 ! a) (h3 ! b) of
                            Inl e \<Rightarrow> (h3, Inl e)
                          | Inr q \<Rightarrow> (let (h4, r) = alloc h3 q in (h4, Inr r)))))))"

definition normalizer_fit_transform_mem ::
    "memory \<Rightarrow> normalizer_obj \<Rightarrow> ref \<Rightarrow> memory \<times> normalizer_obj \<times> (error + ref)" where
  "normalizer_fit_transform_mem h self x =
     (case reduce0_drop max_l (h ! x) of
        Inl e \<Rightarrow> (h, self, Inl e)
      | Inr mx \<Rightarrow>
          (let (h1, xr) = alloc h mx; self1 = self\<lparr>max_ref := Some xr\<rparr> in
           case reduce0_drop min_l (h1 ! x) of
             Inl e \<Rightarrow> (h1, self1, Inl e)
           | Inr mn \<Rightarrow>
               (let (h2, nr) = alloc h1 mn; self2 = self1\<lparr>min_ref := Some nr\<rparr>;
                    (h3, c) = alloc h2 (h2 ! x) in
                case outplace (-) (h3 ! c) (h3 ! nr) of
                  Inl e \<Rightarrow> (h3, self2, Inl e)
                | Inr num \<Rightarrow>
                    (let (h4, a) = alloc h3 num in
                     case outplace (-) (h4 ! xr) (h4 ! nr) of
                       Inl e \<Rightarrow> (h4, self2, Inl e)
                     | Inr den \<Rightarrow>
                         (let (h5, b) = alloc h4 den in
                          case odiv (h5 ! a) (h5 ! b) of
                            Inl e \<Rightarrow> (h5, self2, Inl e)
                          | Inr q \<Rightarrow>
                              (let (h6, r) = alloc h5 q in (h6, self2, Inr r)))))))"

text \<open>
  The value of a scaler object in a memory: its attributes, read through.
\<close>

definition scaler_value :: "memory \<Rightarrow> scaler_obj \<Rightarrow> TorchStandardScaler" where
  "scaler_value h self =
     \<lparr>mean = map_option (\<lambda>r. h ! r) (mean_ref self),
      std = map_option (\<lambda>r. h ! r) (std_ref self)\<rparr>"

definition normalizer_value :: "memory \<Rightarrow> normalizer_obj \<Rightarrow> TorchNormalizer" where
  "normalizer_value h self =
     \<lparr>max_attr = map_option (\<lambda>r. h ! r) (max_ref self),
      min_attr = map_option (\<lambda>r. h ! r) (min_ref self)\<rparr>"

text \<open>
  A reference is fresh for a memory \<open>h\<close> when it is none of the positions of \<open>h\<close>; an
  attribute is kept or fresh when it is as before the call or refers to a fresh object.
\<close>

definition kept_or_fresh :: "memory \<Rightarrow> ref option \<Rightarrow> ref option \<Rightarrow> bool" where
  "kept_or_fresh h old new =
     (new = old \<or> (case new of None \<Rightarrow> False | Some r \<Rightarrow> length h \<le> r))"

definition fresh_result :: "memory \<Rightarrow> memory \<Rightarrow> error + ref \<Rightarrow> bool" where
  "fresh_result h h' res =
     (case res of Inl e \<Rightarrow> True | Inr r \<Rightarrow> length h \<le> r \<and> r < length h')"

text \<open>A set attribute is valid in a memory when it refers to one of its objects.\<close>

definition valid_ref :: "memory \<Rightarrow> ref option \<Rightarrow> bool" where
  "valid_ref h a = (case a of None \<Rightarrow> True | Some r \<Rightarrow> r < length h)"

section \<open>Basic facts\<close>

lemma ebind_Inl [simp]: "ebind (Inl e) f = Inl e"
  by (simp add: ebind_def)

lemma ebind_Inr [simp]: "ebind (Inr a) f = f a"
  by (simp add: ebind_def)

lemma bvec_same [simp]: "length r = d \<Longrightarrow> bvec d r = Some r"
  by (cases r) (auto simp: bvec_def)

lemma bdim_same [simp]: "bdim d d = Some d"
  by (simp add: bdim_def)

lemma map2_nth: "length b = length a \<Longrightarrow> map2 f a b = map (\<lambda>i. f (a ! i) (b ! i)) [0..<length a]"
  by (rule nth_equalityI) auto

lemma rect_ncols: "rect d x \<Longrightarrow> x \<noteq> [] \<Longrightarrow> ncols x = d"
  by (cases x) (auto simp: rect_def ncols_def)

lemma rect_nth: "rect d x \<Longrightarrow> i < length x \<Longrightarrow> length (x ! i) = d"
  by (simp add: rect_def list_all_length)

lemma bmat_row: "length m = d \<Longrightarrow> bmat n d [m] = Some (replicate n m)"
  by (simp add: bmat_def)

lemma map2_replicate: "map2 g x (replicate (length x) c) = map (\<lambda>r. g r c) x"
  by (induction x) auto

text \<open>
  Claim C7. For a posterior whose mean and standard deviation are vectors of one length,
  \<^verbatim>\<open>UCB\<close> returns the vector of \<open>mean + epsilon * stddev\<close>, element by element; without
  the optional argument \<open>epsilon\<close> is 2; with \<open>epsilon = 0\<close> the result is the posterior
  mean itself. The result is a function of the two arguments alone.
\<close>

theorem UCB_elementwise:
  assumes "length s = length m"
  shows "UCB \<lparr>pmean = T1 m, stddev = T1 s\<rparr> (Some e)
           = Inr (T1 (map (\<lambda>i. m ! i + e * s ! i) [0..<length m]))
       \<and> UCB \<lparr>pmean = T1 m, stddev = T1 s\<rparr> None = UCB \<lparr>pmean = T1 m, stddev = T1 s\<rparr> (Some 2)
       \<and> UCB \<lparr>pmean = T1 m, stddev = T1 s\<rparr> (Some 0) = Inr (T1 m)"
proof -
  have gen: "UCB \<lparr>pmean = T1 m, stddev = T1 s\<rparr> (Some c)
           = Inr (T1 (map (\<lambda>i. m ! i + c * s ! i) [0..<length m]))" for c
    using assms by (simp add: UCB_def map2_nth)
  have "map (\<lambda>i. m ! i + 0 * s ! i) [0..<length m] = m"
    by (rule nth_equalityI) auto
  with gen[of 0] gen[of e] show ?thesis by (simp add: UCB_def)
qed

theorem UCB_elementwise_witness:
  "length [2, 4 :: real] = length [1, 3 :: real]
   \<and> UCB \<lparr>pmean = T1 [1, 3], stddev = T1 [2, 4]\<rparr> (Some (1 / 2)) = Inr (T1 [2, 5])
   \<and> UCB \<lparr>pmean = T1 [1, 3], stddev = T1 [2, 4]\<rparr> None = Inr (T1 [5, 11])
   \<and> UCB \<lparr>pmean = T1 [1, 3], stddev = T1 [2, 4]\<rparr> (Some 0) = Inr (T1 [1, 3])"
proof -
  have h: "length [2, 4 :: real] = length [1, 3 :: real]" by simp
  have u: "[0..<length [1, 3 :: real]] = [0, 1]" by (simp add: upt_rec)
  from UCB_elementwise[OF h, of "1 / 2"] UCB_elementwise[OF h, of 2] show ?thesis
    by (simp add: u)
qed

lemma inplace_row:
  "rect d x \<Longrightarrow> length m = d \<Longrightarrow>
     inplace f (T2 x) (T2 [m]) = Inr (T2 (map (\<lambda>r. map2 f r m) x))"
  by (cases "x = []") (simp_all add: rect_ncols bmat_row map2_replicate)

lemma rect_map2: "rect d x \<Longrightarrow> length m = d \<Longrightarrow> rect d (map (\<lambda>r. map2 f r m) x)"
  by (simp add: rect_def list_all_iff)

lemma guard_pass: "0 \<notin> set (elems d) \<Longrightarrow> nonfinite_guard d (Inr t) = Inr t"
  by (simp add: nonfinite_guard_def)

lemma sum_list_col: "sum_list (map f (col x j)) = (\<Sum>i<length x. f (x ! i ! j))"
proof -
  have "sum_list (map f (col x j)) = (\<Sum>i = 0..<length x. f (x ! i ! j))"
    by (simp add: col_def sum_list_sum_nth)
  then show ?thesis by (simp add: atLeast0LessThan)
qed

lemma std_l_nonneg: "0 \<le> std_l v"
  unfolding std_l_def by (intro real_sqrt_ge_zero divide_nonneg_nonneg sum_list_nonneg) auto

lemma mean0_T2: "x \<noteq> [] \<Longrightarrow> rect d x \<Longrightarrow>
    mean0 (T2 x) = Inr (T2 [map (\<lambda>j. mean_l (col x j)) [0..<d]])"
  by (simp add: mean0_def rect_ncols)

lemma std0_T2: "x \<noteq> [] \<Longrightarrow> rect d x \<Longrightarrow>
    std0 (T2 x) = Inr (T2 [map (\<lambda>j. std_l (col x j)) [0..<d]])"
  by (simp add: std0_def rect_ncols)

lemma shift_nonzero:
  "list_all (\<lambda>v. 0 \<le> v) s \<Longrightarrow> 0 < c \<Longrightarrow> (0::real) \<notin> set (map (\<lambda>v. v + c) s)"
  by (auto simp: list_all_iff)

lemma idiv_row:
  "rect d x \<Longrightarrow> length s = d \<Longrightarrow> 0 \<notin> set s \<Longrightarrow>
     idiv (T2 x) (T2 [s]) = Inr (T2 (map (\<lambda>r. map2 (/) r s) x))"
  by (simp add: idiv_def inplace_row guard_pass del: inplace.simps)

lemma transform_T2:
  assumes "rect d z" "length m = d" "length s = d" "list_all (\<lambda>v. 0 \<le> v) s"
  shows "transform (self\<lparr>mean := Some (T2 [m]), std := Some (T2 [s])\<rparr>) (T2 z)
     = Inr (T2 (map (\<lambda>r. map2 (/) (map2 (-) r m) (map (\<lambda>v. v + 1 / 10 ^ 10) s)) z))"
proof -
  have r1: "rect d (map (\<lambda>r. map2 (-) r m) z)"
    using assms by (simp add: rect_map2)
  have nz: "0 \<notin> set (map (\<lambda>v. v + 1 / 10 ^ 10) s)"
    using assms(4) by (rule shift_nonzero) simp
  have d: "idiv (T2 (map (\<lambda>r. map2 (-) r m) z)) (T2 [map (\<lambda>v. v + 1 / 10 ^ 10) s])
      = Inr (T2 (map (\<lambda>r. map2 (/) r (map (\<lambda>v. v + 1 / 10 ^ 10) s)) (map (\<lambda>r. map2 (-) r m) z)))"
    using r1 assms(3) nz by (intro idiv_row) simp_all
  have "transform (self\<lparr>mean := Some (T2 [m]), std := Some (T2 [s])\<rparr>) (T2 z)
      = idiv (T2 (map (\<lambda>r. map2 (-) r m) z)) (T2 [map (\<lambda>v. v + 1 / 10 ^ 10) s])"
    using assms(1,2)
    by (simp add: transform_def clone_def attr_def inplace_row del: inplace.simps)
  with d show ?thesis by (simp add: comp_def)
qed


lemma fit_T2:
  "x \<noteq> [] \<Longrightarrow> rect d x \<Longrightarrow>
    fit self (T2 x) = Inr (self\<lparr>mean := Some (T2 [map (\<lambda>j. mean_l (col x j)) [0..<d]]),
                                std := Some (T2 [map (\<lambda>j. std_l (col x j)) [0..<d]])\<rparr>)"
  by (simp add: fit_def clone_def mean0_T2 std0_T2)

lemma list_all_std_nonneg: "list_all (\<lambda>v. 0 \<le> v) (map (\<lambda>j. std_l (col x j)) js)"
  by (simp add: list_all_iff std_l_nonneg)

text \<open>
  Claim C6. For a data matrix \<open>x\<close> of at least one row, \<^verbatim>\<open>fit\<close> stores, for every column,
  the mean and the population standard deviation (divisor \<open>n\<close>, not \<open>n - 1\<close>) of that
  column, and \<^verbatim>\<open>transform\<close> of a matrix \<open>z\<close> of the same width returns exactly
  \<open>(z - mean) / (std + 1e-10)\<close> element by element. Every divisor is positive, so the
  division is defined also for a constant column, whose standard deviation is zero.
\<close>

theorem scaler_fit_transform_formula:
  assumes "x \<noteq> []" and "rect d x" and "rect d z"
  shows "\<exists>m s. fit self (T2 x) = Inr (self\<lparr>mean := Some (T2 [m]), std := Some (T2 [s])\<rparr>)
      \<and> length m = d \<and> length s = d
      \<and> (\<forall>j<d. m ! j = (\<Sum>i<length x. x ! i ! j) / real (length x)
               \<and> s ! j = sqrt ((\<Sum>i<length x. (x ! i ! j - m ! j)\<^sup>2) / real (length x))
               \<and> 0 < s ! j + 1 / 10 ^ 10)
      \<and> (\<exists>t. transform (self\<lparr>mean := Some (T2 [m]), std := Some (T2 [s])\<rparr>) (T2 z) = Inr (T2 t)
               \<and> length t = length z
               \<and> (\<forall>i<length z. length (t ! i) = d
                      \<and> (\<forall>j<d. t ! i ! j = (z ! i ! j - m ! j) / (s ! j + 1 / 10 ^ 10))))"
proof -
  define m where "m = map (\<lambda>j. mean_l (col x j)) [0..<d]"
  define s where "s = map (\<lambda>j. std_l (col x j)) [0..<d]"
  define t where "t = map (\<lambda>r. map2 (/) (map2 (-) r m) (map (\<lambda>v. v + 1 / 10 ^ 10) s)) z"
  have len: "length m = d" "length s = d"
    by (simp_all add: m_def s_def)
  have f: "fit self (T2 x) = Inr (self\<lparr>mean := Some (T2 [m]), std := Some (T2 [s])\<rparr>)"
    unfolding m_def s_def using assms(1,2) by (rule fit_T2)
  have nn: "list_all (\<lambda>v. 0 \<le> v) s"
    unfolding s_def by (rule list_all_std_nonneg)
  have stats: "m ! j = (\<Sum>i<length x. x ! i ! j) / real (length x)
      \<and> s ! j = sqrt ((\<Sum>i<length x. (x ! i ! j - m ! j)\<^sup>2) / real (length x))
      \<and> 0 < s ! j + 1 / 10 ^ 10" if "j < d" for j
  proof -
    have mj: "m ! j = mean_l (col x j)" and sj: "s ! j = std_l (col x j)"
      using that by (simp_all add: m_def s_def)
    have "sum_list (col x j) = (\<Sum>i<length x. x ! i ! j)"
      using sum_list_col[of "\<lambda>a. a" x j] by simp
    then have 1: "m ! j = (\<Sum>i<length x. x ! i ! j) / real (length x)"
      by (simp add: mj mean_l_def col_def)
    have 2: "s ! j = sqrt ((\<Sum>i<length x. (x ! i ! j - m ! j)\<^sup>2) / real (length x))"
      by (simp add: sj std_l_def sum_list_col mj[symmetric]) (simp add: col_def)
    have "0 \<le> s ! j" by (simp add: sj std_l_nonneg)
    then have 3: "0 < s ! j + 1 / 10 ^ 10" by (simp add: add_nonneg_pos)
    from 1 2 3 show ?thesis by blast
  qed
  have tr: "transform (self\<lparr>mean := Some (T2 [m]), std := Some (T2 [s])\<rparr>) (T2 z) = Inr (T2 t)"
    unfolding t_def using assms(3) len nn by (rule transform_T2)
  have entries: "length (t ! i) = d
      \<and> (\<forall>j<d. t ! i ! j = (z ! i ! j - m ! j) / (s ! j + 1 / 10 ^ 10))" if "i < length z" for i
    using that rect_nth[OF assms(3) that] len by (simp add: t_def)
  have "length t = length z" by (simp add: t_def)
  with f len stats tr entries show ?thesis by blast
qed

theorem scaler_fit_transform_formula_witness:
  "[[0], [2]] \<noteq> ([] :: real list list) \<and> rect 1 [[0], [2]] \<and> rect 1 [[4]]
   \<and> (\<exists>m s. fit new_TorchStandardScaler (T2 [[0], [2]])
            = Inr (new_TorchStandardScaler\<lparr>mean := Some (T2 [m]), std := Some (T2 [s])\<rparr>)
      \<and> m = [1] \<and> s = [1]
      \<and> transform (new_TorchStandardScaler\<lparr>mean := Some (T2 [m]), std := Some (T2 [s])\<rparr>) (T2 [[4]])
            = Inr (T2 [[3 / (1 + 1 / 10 ^ 10)]]))"
proof -
  have h1: "[[0], [2]] \<noteq> ([] :: real list list)" by simp
  have h2: "rect 1 [[0], [2]]" by (simp add: rect_def)
  have h3: "rect 1 [[4]]" by (simp add: rect_def)
  from scaler_fit_transform_formula[OF h1 h2 h3, of new_TorchStandardScaler]
  obtain m s t where
    f: "fit new_TorchStandardScaler (T2 [[0], [2]])
          = Inr (new_TorchStandardScaler\<lparr>mean := Some (T2 [m]), std := Some (T2 [s])\<rparr>)"
    and lm: "length m = 1" and ls: "length s = 1"
    and st: "\<forall>j<1. m ! j = (\<Sum>i<length [[0::real], [2]]. [[0], [2]] ! i ! j) / real (length [[0::real], [2]])
               \<and> s ! j = sqrt ((\<Sum>i<length [[0::real], [2]]. ([[0], [2]] ! i ! j - m ! j)\<^sup>2) / real (length [[0::real], [2]]))
               \<and> 0 < s ! j + 1 / 10 ^ 10"
    and tr: "transform (new_TorchStandardScaler\<lparr>mean := Some (T2 [m]), std := Some (T2 [s])\<rparr>) (T2 [[4]]) = Inr (T2 t)"
    and lt: "length t = length [[4::real]]"
    and en: "\<forall>i<length [[4::real]]. length (t ! i) = 1
                      \<and> (\<forall>j<1. t ! i ! j = ([[4]] ! i ! j - m ! j) / (s ! j + 1 / 10 ^ 10))"
    by blast
  from st have m0: "m ! 0 = 1" by (simp add: lessThan_Suc numeral_2_eq_2)
  with lm have m: "m = [1]" by (cases m) auto
  from st m0 have "s ! 0 = 1" by (simp add: lessThan_Suc numeral_2_eq_2)
  with ls have s: "s = [1]" by (cases s) auto
  from en have "length (t ! 0) = 1" "t ! 0 ! 0 = (4 - m ! 0) / (s ! 0 + 1 / 10 ^ 10)" by simp_all
  with m s lt have "t = [[3 / (1 + 1 / 10 ^ 10)]]"
    by (cases t; cases "t ! 0") auto
  with f tr m s h1 h2 h3 show ?thesis by blast
qed

section \<open>The scaler: round trip and standardised data\<close>

lemma reverse_T2:
  assumes "rect d t" "length m = d" "length s = d"
  shows "reverse (self\<lparr>mean := Some (T2 [m]), std := Some (T2 [s])\<rparr>) (T2 t)
     = Inr (T2 (map (\<lambda>r. map2 (+) (map2 (*) r (map (\<lambda>v. v + 1 / 10 ^ 10) s)) m) t))"
proof -
  have r1: "rect d (map (\<lambda>r. map2 (*) r (map (\<lambda>v. v + 1 / 10 ^ 10) s)) t)"
    using assms by (simp add: rect_map2)
  have a: "inplace (*) (T2 t) (T2 [map (\<lambda>v. v + 1 / 10 ^ 10) s])
      = Inr (T2 (map (\<lambda>r. map2 (*) r (map (\<lambda>v. v + 1 / 10 ^ 10) s)) t))"
    using assms by (intro inplace_row) simp_all
  have b: "inplace (+) (T2 (map (\<lambda>r. map2 (*) r (map (\<lambda>v. v + 1 / 10 ^ 10) s)) t)) (T2 [m])
      = Inr (T2 (map (\<lambda>r. map2 (+) r m) (map (\<lambda>r. map2 (*) r (map (\<lambda>v. v + 1 / 10 ^ 10) s)) t)))"
    using r1 assms(2) by (rule inplace_row)
  have "reverse (self\<lparr>mean := Some (T2 [m]), std := Some (T2 [s])\<rparr>) (T2 t)
      = inplace (+) (T2 (map (\<lambda>r. map2 (*) r (map (\<lambda>v. v + 1 / 10 ^ 10) s)) t)) (T2 [m])"
    unfolding reverse_def clone_def Let_def attr_def using a
    by (simp del: inplace.simps)
  with b show ?thesis by (simp add: comp_def)
qed

lemma row_roundtrip:
  assumes "length r = d" "length m = d" "length s = d" "(0::real) \<notin> set s"
  shows "map2 (+) (map2 (*) (map2 (/) (map2 (-) r m) s) s) m = r"
proof (rule nth_equalityI)
  show "length (map2 (+) (map2 (*) (map2 (/) (map2 (-) r m) s) s) m) = length r"
    using assms by simp
next
  fix i assume "i < length (map2 (+) (map2 (*) (map2 (/) (map2 (-) r m) s) s) m)"
  then have i: "i < d" using assms by simp
  then have "s ! i \<in> set s" using assms by simp
  with assms(4) have "s ! i \<noteq> 0" by metis
  with i assms show "map2 (+) (map2 (*) (map2 (/) (map2 (-) r m) s) s) m ! i = r ! i"
    by simp
qed

lemma col_transform:
  assumes "rect d x" "length m = d" "length s = d" "j < d"
  shows "col (map (\<lambda>r. map2 (/) (map2 (-) r m) s) x) j = map (\<lambda>a. (a - m ! j) / s ! j) (col x j)"
  using assms by (simp add: col_def rect_def list_all_iff)

lemma sum_list_shift_scale:
  "sum_list (map (\<lambda>a. (a - u) / c) v) = (sum_list v - real (length v) * u) / (c::real)"
  by (induction v) (simp_all add: algebra_simps add_divide_distrib diff_divide_distrib)

lemma mean_l_standardised:
  "v \<noteq> [] \<Longrightarrow> mean_l (map (\<lambda>a. (a - mean_l v) / c) v) = 0"
  by (simp add: mean_l_def sum_list_shift_scale)

lemma sum_list_scale: "sum_list (map (\<lambda>a. f a / c) v) = sum_list (map f v) / (c::real)"
  by (induction v) (simp_all add: add_divide_distrib)

lemma std_l_standardised:
  assumes "v \<noteq> []" "0 < c"
  shows "std_l (map (\<lambda>a. (a - mean_l v) / c) v) = std_l v / c"
proof -
  have "sum_list (map (\<lambda>a. ((a - mean_l v) / c)\<^sup>2) v)
      = sum_list (map (\<lambda>a. (a - mean_l v)\<^sup>2) v) / c\<^sup>2"
    by (simp add: power_divide sum_list_scale)
  then have "std_l (map (\<lambda>a. (a - mean_l v) / c) v)
      = sqrt (sum_list (map (\<lambda>a. (a - mean_l v)\<^sup>2) v) / real (length v) / c\<^sup>2)"
    using assms(1) by (simp add: std_l_def mean_l_standardised comp_def)
  also have "\<dots> = sqrt (sum_list (map (\<lambda>a. (a - mean_l v)\<^sup>2) v) / real (length v)) / sqrt (c\<^sup>2)"
    by (rule real_sqrt_divide)
  also have "sqrt (c\<^sup>2) = c"
    using assms(2) by simp
  finally show ?thesis by (simp add: std_l_def)
qed


lemma fit_transform_T2:
  assumes "x \<noteq> []" "rect d x"
  shows "fit_transform self (T2 x)
     = Inr (self\<lparr>mean := Some (T2 [map (\<lambda>j. mean_l (col x j)) [0..<d]]),
                   std := Some (T2 [map (\<lambda>j. std_l (col x j)) [0..<d]])\<rparr>,
            T2 (map (\<lambda>r. map2 (/) (map2 (-) r (map (\<lambda>j. mean_l (col x j)) [0..<d]))
                      (map (\<lambda>v. v + 1 / 10 ^ 10) (map (\<lambda>j. std_l (col x j)) [0..<d]))) x))"
proof -
  define m where "m = map (\<lambda>j. mean_l (col x j)) [0..<d]"
  define s where "s = map (\<lambda>j. std_l (col x j)) [0..<d]"
  have len: "length m = d" "length s = d" by (simp_all add: m_def s_def)
  have r1: "rect d (map (\<lambda>r. map2 (-) r m) x)"
    using assms len by (simp add: rect_map2)
  have nz: "0 \<notin> set (map (\<lambda>v. v + 1 / 10 ^ 10) s)"
    unfolding s_def by (rule shift_nonzero[OF list_all_std_nonneg]) simp
  have dv: "idiv (T2 (map (\<lambda>r. map2 (-) r m) x)) (T2 [map (\<lambda>v. v + 1 / 10 ^ 10) s])
      = Inr (T2 (map (\<lambda>r. map2 (/) r (map (\<lambda>v. v + 1 / 10 ^ 10) s)) (map (\<lambda>r. map2 (-) r m) x)))"
    using r1 len nz by (intro idiv_row) simp_all
  have sb: "inplace (-) (T2 x) (T2 [m]) = Inr (T2 (map (\<lambda>r. map2 (-) r m) x))"
    using assms(2) len(1) by (rule inplace_row)
  have "fit_transform self (T2 x)
      = ebind (idiv (T2 (map (\<lambda>r. map2 (-) r m) x)) (T2 [map (\<lambda>v. v + 1 / 10 ^ 10) s]))
          (\<lambda>x2. Inr (self\<lparr>mean := Some (T2 [m]), std := Some (T2 [s])\<rparr>, x2))"
    unfolding fit_transform_def clone_def Let_def
    using mean0_T2[OF assms] std0_T2[OF assms] sb
    by (simp add: m_def s_def del: inplace.simps)
  then show ?thesis
    unfolding dv by (simp add: comp_def m_def s_def)
qed

text \<open>
  Claim C5, as amended. Over the reals, for a scaler fitted on a matrix \<open>x\<close> of at least
  one row, \<^verbatim>\<open>reverse (transform z)\<close> is exactly \<open>z\<close> for every matrix \<open>z\<close> of the same
  width. The transform of the fitting data itself, which \<^verbatim>\<open>fit_transform\<close> returns too, has
  mean zero in every column, and its population standard deviation in a column is
  \<open>std / (std + 1e-10)\<close>: below one in every case, and zero for a constant column.
\<close>

theorem scaler_roundtrip_standardised:
  assumes "x \<noteq> []" and "rect d x" and "rect d z"
  shows "\<exists>m s t u.
      fit self (T2 x) = Inr (self\<lparr>mean := Some (T2 [m]), std := Some (T2 [s])\<rparr>)
    \<and> transform (self\<lparr>mean := Some (T2 [m]), std := Some (T2 [s])\<rparr>) (T2 z) = Inr (T2 u)
    \<and> reverse (self\<lparr>mean := Some (T2 [m]), std := Some (T2 [s])\<rparr>) (T2 u) = Inr (T2 z)
    \<and> transform (self\<lparr>mean := Some (T2 [m]), std := Some (T2 [s])\<rparr>) (T2 x) = Inr (T2 t)
    \<and> fit_transform self (T2 x)
          = Inr (self\<lparr>mean := Some (T2 [m]), std := Some (T2 [s])\<rparr>, T2 t)
    \<and> mean0 (T2 t) = Inr (T2 [replicate d 0])
    \<and> std0 (T2 t) = Inr (T2 [map (\<lambda>v. v / (v + 1 / 10 ^ 10)) s])
    \<and> list_all (\<lambda>v. 0 \<le> v / (v + 1 / 10 ^ 10) \<and> v / (v + 1 / 10 ^ 10) < 1) s"
proof -
  define m where "m = map (\<lambda>j. mean_l (col x j)) [0..<d]"
  define s where "s = map (\<lambda>j. std_l (col x j)) [0..<d]"
  define s' where "s' = map (\<lambda>v. v + 1 / 10 ^ 10) s"
  define t where "t = map (\<lambda>r. map2 (/) (map2 (-) r m) s') x"
  define u where "u = map (\<lambda>r. map2 (/) (map2 (-) r m) s') z"
  let ?sc = "self\<lparr>mean := Some (T2 [m]), std := Some (T2 [s])\<rparr>"
  have len: "length m = d" "length s = d" "length s' = d"
    by (simp_all add: m_def s_def s'_def)
  have nn: "list_all (\<lambda>v. 0 \<le> v) s"
    unfolding s_def by (rule list_all_std_nonneg)
  have nz: "0 \<notin> set s'"
    unfolding s'_def using nn by (rule shift_nonzero) simp
  have f: "fit self (T2 x) = Inr ?sc"
    unfolding m_def s_def using assms(1,2) by (rule fit_T2)
  have tz: "transform ?sc (T2 z) = Inr (T2 u)"
    unfolding u_def s'_def using assms(3) len(1,2) nn by (rule transform_T2)
  have tx: "transform ?sc (T2 x) = Inr (T2 t)"
    unfolding t_def s'_def using assms(2) len(1,2) nn by (rule transform_T2)
  have ft: "fit_transform self (T2 x) = Inr (?sc, T2 t)"
    unfolding t_def s'_def m_def s_def using assms(1,2) by (rule fit_transform_T2)
  have ru: "rect d u"
    using assms(3) len by (simp add: u_def rect_def list_all_iff)
  have rt: "rect d t"
    using assms(2) len by (simp add: t_def rect_def list_all_iff)
  have "map (\<lambda>r. map2 (+) (map2 (*) r s') m) u = z"
  proof (rule nth_equalityI)
    show "length (map (\<lambda>r. map2 (+) (map2 (*) r s') m) u) = length z"
      by (simp add: u_def)
  next
    fix i assume "i < length (map (\<lambda>r. map2 (+) (map2 (*) r s') m) u)"
    then have i: "i < length z" by (simp add: u_def)
    then have "length (z ! i) = d" using assms(3) by (rule rect_nth[rotated])
    then have "map2 (+) (map2 (*) (map2 (/) (map2 (-) (z ! i) m) s') s') m = z ! i"
      using len(1,3) nz by (rule row_roundtrip)
    with i show "map (\<lambda>r. map2 (+) (map2 (*) r s') m) u ! i = z ! i"
      by (simp add: u_def)
  qed
  with reverse_T2[OF ru len(1,2), of self]
  have rv: "reverse ?sc (T2 u) = Inr (T2 z)"
    by (simp add: s'_def)
  have tne: "t \<noteq> []" using assms(1) by (simp add: t_def)
  have colt: "col t j = map (\<lambda>a. (a - mean_l (col x j)) / (std_l (col x j) + 1 / 10 ^ 10)) (col x j)"
    if "j < d" for j
    unfolding t_def using col_transform[OF assms(2) len(1,3) that] that
    by (simp add: m_def s'_def s_def)
  have cne: "col x j \<noteq> []" for j using assms(1) by (simp add: col_def)
  have pos: "0 < std_l v + 1 / 10 ^ 10" for v
    using std_l_nonneg[of v] by (simp add: add_nonneg_pos)
  have "map (\<lambda>j. mean_l (col t j)) [0..<d] = replicate d 0"
    by (rule nth_equalityI) (simp_all add: colt mean_l_standardised[OF cne])
  with mean0_T2[OF tne rt] have mt: "mean0 (T2 t) = Inr (T2 [replicate d 0])" by simp
  have stj: "std_l (col t j) = std_l (col x j) / (std_l (col x j) + 1 / 10 ^ 10)" if "j < d" for j
    unfolding colt[OF that] using cne pos by (rule std_l_standardised)
  have "map (\<lambda>j. std_l (col t j)) [0..<d] = map (\<lambda>v. v / (v + 1 / 10 ^ 10)) s"
    by (rule nth_equalityI) (simp_all add: stj s_def)
  with std0_T2[OF tne rt] have st: "std0 (T2 t) = Inr (T2 [map (\<lambda>v. v / (v + 1 / 10 ^ 10)) s])"
    by simp
  have below: "list_all (\<lambda>v. 0 \<le> v / (v + 1 / 10 ^ 10) \<and> v / (v + 1 / 10 ^ 10) < 1) s"
    using nn by (auto simp: list_all_iff add_nonneg_pos)
  from f tz rv tx ft mt st below show ?thesis by blast
qed

theorem scaler_roundtrip_standardised_witness:
  "[[0], [2]] \<noteq> ([] :: real list list) \<and> rect 1 [[0], [2]] \<and> rect 1 [[4]]
   \<and> (\<exists>m s t u.
      fit new_TorchStandardScaler (T2 [[0], [2]])
        = Inr (new_TorchStandardScaler\<lparr>mean := Some (T2 [m]), std := Some (T2 [s])\<rparr>)
    \<and> transform (new_TorchStandardScaler\<lparr>mean := Some (T2 [m]), std := Some (T2 [s])\<rparr>) (T2 [[4]]) = Inr (T2 u)
    \<and> reverse (new_TorchStandardScaler\<lparr>mean := Some (T2 [m]), std := Some (T2 [s])\<rparr>) (T2 u) = Inr (T2 [[4]])
    \<and> transform (new_TorchStandardScaler\<lparr>mean := Some (T2 [m]), std := Some (T2 [s])\<rparr>) (T2 [[0], [2]]) = Inr (T2 t)
    \<and> fit_transform new_TorchStandardScaler (T2 [[0], [2]])
          = Inr (new_TorchStandardScaler\<lparr>mean := Some (T2 [m]), std := Some (T2 [s])\<rparr>, T2 t)
    \<and> mean0 (T2 t) = Inr (T2 [replicate 1 0])
    \<and> std0 (T2 t) = Inr (T2 [map (\<lambda>v. v / (v + 1 / 10 ^ 10)) s])
    \<and> list_all (\<lambda>v. 0 \<le> v / (v + 1 / 10 ^ 10) \<and> v / (v + 1 / 10 ^ 10) < 1) s)"
proof -
  have h1: "[[0], [2]] \<noteq> ([] :: real list list)" by simp
  have h2: "rect 1 [[0], [2]]" by (simp add: rect_def)
  have h3: "rect 1 [[4]]" by (simp add: rect_def)
  from scaler_roundtrip_standardised[OF h1 h2 h3, of new_TorchStandardScaler] h1 h2 h3
  show ?thesis by blast
qed

text \<open>
  The claim as stated promises unit variance for every column. A constant column is
  mapped to zeros, whose standard deviation is zero, not one.
\<close>

theorem constant_column_variance_counterexample:
  "fit new_TorchStandardScaler (T2 [[5], [5]])
     = Inr \<lparr>mean = Some (T2 [[5]]), std = Some (T2 [[0]])\<rparr>
   \<and> transform \<lparr>mean = Some (T2 [[5]]), std = Some (T2 [[0]])\<rparr> (T2 [[5], [5]])
     = Inr (T2 [[0], [0]])
   \<and> std0 (T2 [[0], [0]]) = Inr (T2 [[0]])
   \<and> std0 (T2 [[0], [0]]) \<noteq> Inr (T2 [[1]])"
  by (simp add: fit_def transform_def clone_def mean0_def std0_def new_TorchStandardScaler_def
      ncols_def col_def mean_l_def std_l_def attr_def idiv_def nonfinite_guard_def
      bmat_def bvec_def)

section \<open>Masking and selection\<close>

lemma UCB_T1:
  "length s = length m \<Longrightarrow>
     UCB \<lparr>pmean = T1 m, stddev = T1 s\<rparr> None = Inr (T1 (map2 (\<lambda>a b. a + 2 * b) m s))"
  by (simp add: UCB_def zip_map2 case_prod_unfold)

lemma length_fold_update: "length (fold (\<lambda>i u. u[i := c]) ix a) = length a"
  by (induction ix arbitrary: a) simp_all

lemma nth_fold_update:
  "k < length a \<Longrightarrow>
     fold (\<lambda>i u. u[i := c]) ix a ! k = (if k \<in> set ix then c else a ! k)"
proof (induction ix arbitrary: a)
  case Nil
  then show ?case by simp
next
  case (Cons i ix)
  have "fold (\<lambda>i u. u[i := c]) ix (a[i := c]) ! k = (if k \<in> set ix then c else a[i := c] ! k)"
    using Cons.prems by (intro Cons.IH) simp
  with Cons.prems show ?case by (auto simp: nth_list_update)
qed

lemma max_l_Max: "v \<noteq> [] \<Longrightarrow> max_l v = Max (set v)"
proof (cases v)
  case Nil
  assume "v \<noteq> []"
  with Nil show ?thesis by simp
next
  case (Cons a l)
  have "Max (set (a # l)) = fold max l a" by (rule Max.set_eq_fold)
  with Cons show ?thesis by (simp add: max_l_def)
qed

lemma first_index_mem:
  "m \<in> set v \<Longrightarrow> first_index m v < length v \<and> v ! first_index m v = m"
  by (induction v) auto

lemma first_index_least: "i < first_index m v \<Longrightarrow> v ! i \<noteq> m"
proof (induction v arbitrary: i)
  case Nil
  then show ?case by simp
next
  case (Cons a v)
  then show ?case by (cases i) (auto split: if_splits)
qed

lemma argmax_T1:
  assumes "v \<noteq> []"
  shows "\<exists>j. argmax (T1 v) = Inr j \<and> j < length v \<and> (\<forall>i<length v. v ! i \<le> v ! j)
            \<and> (\<forall>i<j. v ! i < v ! j)"
proof -
  let ?j = "first_index (max_l v) v"
  have mx: "max_l v = Max (set v)" using assms by (rule max_l_Max)
  have "Max (set v) \<in> set v" using assms by (intro Max_in) simp_all
  then have j: "?j < length v" "v ! ?j = Max (set v)"
    using first_index_mem[of "max_l v" v] by (simp_all add: mx)
  have le: "v ! i \<le> v ! ?j" if "i < length v" for i
    using that j(2) by simp
  have lt: "v ! i < v ! ?j" if "i < ?j" for i
  proof -
    from that j(1) have "i < length v" by simp
    from le[OF this] first_index_least[OF that] j(2) mx show ?thesis by simp
  qed
  from j le lt assms show ?thesis by (auto simp: argmax_def)
qed

text \<open>
  After \<^verbatim>\<open>acqf_vals[idx] = -100\<close> the maximum is taken at a candidate outside \<open>ix\<close>, provided
  some candidate outside \<open>ix\<close> scores above \<open>-100\<close>.
\<close>

lemma masked_argmax_fresh:
  assumes "k < length a" "k \<notin> set ix" "- 100 < a ! k"
    and "argmax (T1 (fold (\<lambda>i u. u[i := - 100]) ix a)) = Inr j"
  shows "j \<notin> set ix"
proof
  assume jin: "j \<in> set ix"
  let ?b = "fold (\<lambda>i u. u[i := - 100]) ix a"
  have len: "length ?b = length a" by (rule length_fold_update)
  then have "?b \<noteq> []" using assms(1) by auto
  from argmax_T1[OF this] assms(4)
  have j: "j < length a" and mx: "\<forall>i<length a. ?b ! i \<le> ?b ! j"
    by (auto simp: len)
  have "?b ! j = - 100" using j jin by (simp add: nth_fold_update)
  moreover have "?b ! k = a ! k" using assms(1,2) by (simp add: nth_fold_update)
  ultimately show False using mx assms(1,3) by fastforce
qed

section \<open>One iteration of the loop\<close>

lemma fit_fitted:
  assumes "x \<noteq> []" "rect d x"
  shows "\<exists>sc. fit new_TorchStandardScaler (T2 x) = Inr sc \<and> fitted d sc"
  unfolding fit_T2[OF assms] fitted_def
  by (simp add: list_all_std_nonneg)

lemma transform_fitted:
  assumes "fitted d sc" "rect d z"
  shows "\<exists>t. transform sc (T2 z) = Inr (T2 t)"
proof -
  from assms(1) obtain m s where ms: "mean sc = Some (T2 [m])" "std sc = Some (T2 [s])"
    "length m = d" "length s = d" "list_all (\<lambda>v. 0 \<le> v) s"
    unfolding fitted_def by blast
  have "sc = sc\<lparr>mean := Some (T2 [m]), std := Some (T2 [s])\<rparr>"
    using ms(1,2) by simp
  with transform_T2[OF assms(2) ms(3,4,5), of sc] show ?thesis by auto
qed

lemma fit_transform_T1:
  assumes "v \<noteq> []"
  shows "\<exists>r. fit_transform self (T1 v) = Inr r"
proof -
  have "0 \<le> std_l v" by (rule std_l_nonneg)
  then have "std_l v + 1 / 10 ^ 10 \<noteq> 0" by (simp add: add_nonneg_eq_0_iff)
  then show ?thesis
    using assms
    by (simp add: fit_transform_def clone_def mean0_def std0_def bvec_def idiv_def
        nonfinite_guard_def)
qed

lemma rect_select:
  "rect d xs \<Longrightarrow> list_all (\<lambda>i. i < length xs) ix \<Longrightarrow> rect d (map (\<lambda>i. xs ! i) ix)"
  by (auto simp: rect_def list_all_iff)

lemma loop_body_step:
  assumes pool: "pool_ok d xs ys"
    and sc: "fitted d sc"
    and g: "surrogate_ok (length xs) g"
    and st: "consistent xs ys st" "s_idx st \<noteq> []"
  shows "\<exists>j gp Xq m s.
      gp_predict g gp Xq = Inr \<lparr>pmean = T1 m, stddev = T1 s\<rparr>
    \<and> length m = length xs \<and> length s = length xs
    \<and> argmax (T1 (fold (\<lambda>i u. u[i := - 100]) (s_idx st) (map2 (\<lambda>a b. a + 2 * b) m s))) = Inr j
    \<and> j < length xs
    \<and> loop_body g sc (T2 xs) (T1 ys) st
        = Inr \<lparr>s_idx = s_idx st @ [j],
               s_X = T2 (map (\<lambda>i. xs ! i) (s_idx st @ [j])),
               s_y = T1 (map (\<lambda>i. ys ! i) (s_idx st @ [j]))\<rparr>"
proof -
  from pool have xs: "xs \<noteq> []" "rect d xs" "length ys = length xs"
    by (simp_all add: pool_ok_def)
  from st(1) have ix: "list_all (\<lambda>i. i < length xs) (s_idx st)"
    and sX: "s_X st = T2 (map (\<lambda>i. xs ! i) (s_idx st))"
    and sy: "s_y st = T1 (map (\<lambda>i. ys ! i) (s_idx st))"
    by (simp_all add: consistent_def)
  from transform_fitted[OF sc rect_select[OF xs(2) ix]]
  obtain X1 where X1: "transform sc (s_X st) = Inr (T2 X1)" by (auto simp: sX)
  from fit_transform_T1[of "map (\<lambda>i. ys ! i) (s_idx st)" new_TorchStandardScaler] st(2)
  obtain sc1 y1 where y1: "fit_transform new_TorchStandardScaler (s_y st) = Inr (sc1, y1)"
    by (auto simp: sy)
  from g obtain gp where gp: "gp_fit g (T2 X1) y1 = Inr gp"
    unfolding surrogate_ok_def by blast
  from transform_fitted[OF sc xs(2)]
  obtain Xq where Xq: "transform sc (T2 xs) = Inr (T2 Xq)" by blast
  from g obtain m s where pr: "gp_predict g gp (T2 Xq) = Inr \<lparr>pmean = T1 m, stddev = T1 s\<rparr>"
    and len: "length m = length xs" "length s = length xs"
    unfolding surrogate_ok_def by blast
  let ?a = "map2 (\<lambda>a b. a + 2 * b) m s"
  let ?b = "fold (\<lambda>i u. u[i := - 100]) (s_idx st) ?a"
  have ucb: "UCB \<lparr>pmean = T1 m, stddev = T1 s\<rparr> None = Inr (T1 ?a)"
    using len by (intro UCB_T1) simp
  have la: "length ?a = length xs" using len by simp
  have fill: "index_fill (T1 ?a) (s_idx st) (- 100) = Inr (T1 ?b)"
    using ix la by simp
  have "?b \<noteq> []" using xs(1) la by (auto simp: length_fold_update dest: arg_cong[of _ _ length])
  from argmax_T1[OF this] obtain j where j1: "argmax (T1 ?b) = Inr j" and j2: "j < length ?b"
    by blast
  from j2 have "j < length xs" by (simp only: length_fold_update la)
  note j = j1 this
  have ix': "list_all (\<lambda>i. i < length xs) (s_idx st @ [j])"
    using ix j(2) by simp
  have selX: "index_select (T2 xs) (s_idx st @ [j]) = Inr (T2 (map (\<lambda>i. xs ! i) (s_idx st @ [j])))"
    using ix' by simp
  have sely: "index_select (T1 ys) (s_idx st @ [j]) = Inr (T1 (map (\<lambda>i. ys ! i) (s_idx st @ [j])))"
    using ix' xs(3) by simp
  have "loop_body g sc (T2 xs) (T1 ys) st
        = Inr \<lparr>s_idx = s_idx st @ [j],
               s_X = T2 (map (\<lambda>i. xs ! i) (s_idx st @ [j])),
               s_y = T1 (map (\<lambda>i. ys ! i) (s_idx st @ [j]))\<rparr>"
    unfolding loop_body_def X1 y1 ebind_Inr prod.case gp Xq pr ucb fill j(1) Let_def selX sely
    by (rule refl)
  with pr len j show ?thesis by blast
qed

section \<open>The loop\<close>

lemma ebind_assoc: "ebind (ebind r f) h = ebind r (\<lambda>a. ebind (f a) h)"
  by (cases r) simp_all

lemma for_range_Suc_right: "for_range (Suc k) body st = ebind (for_range k body st) body"
proof (induction k arbitrary: st)
  case 0
  show ?case by (cases "body st") simp_all
next
  case (Suc k)
  have "for_range (Suc (Suc k)) body st = ebind (body st) (for_range (Suc k) body)"
    by simp
  also have "\<dots> = ebind (body st) (\<lambda>a. ebind (for_range k body a) body)"
    by (cases "body st") (simp_all add: Suc.IH del: for_range.simps)
  also have "\<dots> = ebind (for_range (Suc k) body st) body"
    by (simp add: ebind_assoc)
  finally show ?case .
qed

lemma for_range_add:
  "for_range (a + b) body st = ebind (for_range a body st) (for_range b body)"
proof (induction a arbitrary: st)
  case 0
  show ?case by simp
next
  case (Suc a)
  show ?case by (cases "body st") (simp_all add: Suc.IH)
qed

lemma for_range_inv:
  assumes step: "\<And>k st. k < n \<Longrightarrow> P k st \<Longrightarrow> \<exists>st'. body st = Inr st' \<and> P (Suc k) st'"
  shows "m \<le> n \<Longrightarrow> P (n - m) st \<Longrightarrow> \<exists>st'. for_range m body st = Inr st' \<and> P n st'"
proof (induction m arbitrary: st)
  case 0
  then show ?case by simp
next
  case (Suc m)
  from Suc.prems have lt: "n - Suc m < n" by simp
  from step[OF lt Suc.prems(2)] obtain st1 where b: "body st = Inr st1" and p: "P (Suc (n - Suc m)) st1"
    by blast
  from Suc.prems(1) have "Suc (n - Suc m) = n - m" by simp
  with p have "P (n - m) st1" by simp
  with Suc.IH Suc.prems(1) obtain st' where "for_range m body st1 = Inr st'" "P n st'"
    by (metis Suc_leD)
  with b show ?case by simp
qed

lemma randperm_facts:
  assumes "is_randperm N p"
  shows "set p = {0..<N}" "distinct p" "length p = N"
proof -
  from assms have s: "sort p = [0..<N]" by (simp add: is_randperm_def)
  have "set p = set (sort p)" by simp
  then show "set p = {0..<N}" by (simp only: s set_upt)
  have "distinct p = distinct (sort p)" by simp
  then show "distinct p" by (simp only: s distinct_upt)
  have "length p = length (sort p)" by simp
  then show "length p = N" by (simp add: s)
qed

lemma initial_sample:
  assumes "is_randperm N p"
  shows "list_all (\<lambda>i. i < N) (take n p)" "distinct (take n p)" "length (take n p) = min n N"
proof -
  note f = randperm_facts[OF assms]
  have "set (take n p) \<subseteq> set p" by (rule set_take_subset)
  with f(1) show "list_all (\<lambda>i. i < N) (take n p)" by (auto simp: list_all_iff)
  from f(2) show "distinct (take n p)" by simp
  from f(3) show "length (take n p) = min n N" by (simp add: min.commute)
qed

lemma campaign_unfold:
  assumes pool: "pool_ok d xs ys" and p: "is_randperm (length xs) p"
  shows "\<exists>sc. fit new_TorchStandardScaler (T2 xs) = Inr sc \<and> fitted d sc
      \<and> consistent xs ys (initial_state xs ys p n)
      \<and> (\<forall>k. campaign g (T2 xs) (T1 ys) p k n
             = for_range k (loop_body g sc (T2 xs) (T1 ys)) (initial_state xs ys p n))"
proof -
  from pool have xs: "xs \<noteq> []" "rect d xs" "length ys = length xs"
    by (simp_all add: pool_ok_def)
  from fit_fitted[OF xs(1,2)] obtain sc where sc: "fit new_TorchStandardScaler (T2 xs) = Inr sc"
    "fitted d sc" by blast
  note ix = initial_sample(1)[OF p, of n]
  have c: "consistent xs ys (initial_state xs ys p n)"
    using ix by (simp add: consistent_def initial_state_def)
  have "campaign g (T2 xs) (T1 ys) p k n
      = for_range k (loop_body g sc (T2 xs) (T1 ys)) (initial_state xs ys p n)" for k
    using ix xs(3) by (simp add: campaign_def sc(1) clone_def Let_def initial_state_def)
  with sc c show ?thesis by blast
qed

lemma run_from:
  assumes pool: "pool_ok d xs ys" and sc: "fitted d sc" and g: "surrogate_ok (length xs) g"
    and st0: "consistent xs ys st0" "s_idx st0 \<noteq> []"
  shows "\<exists>st. for_range n (loop_body g sc (T2 xs) (T1 ys)) st0 = Inr st
      \<and> consistent xs ys st
      \<and> length (s_idx st) = length (s_idx st0) + n
      \<and> take (length (s_idx st0)) (s_idx st) = s_idx st0"
proof -
  define P where "P k st \<longleftrightarrow> consistent xs ys st
      \<and> length (s_idx st) = length (s_idx st0) + k
      \<and> take (length (s_idx st0)) (s_idx st) = s_idx st0" for k st
  have step: "\<exists>st'. loop_body g sc (T2 xs) (T1 ys) st = Inr st' \<and> P (Suc k) st'"
    if "k < n" "P k st" for k st
  proof -
    from that(2) have c: "consistent xs ys st"
      and l: "length (s_idx st) = length (s_idx st0) + k"
      and t: "take (length (s_idx st0)) (s_idx st) = s_idx st0"
      by (simp_all add: P_def)
    from l st0(2) have ne: "s_idx st \<noteq> []" by auto
    from loop_body_step[OF pool sc g c ne] obtain j where j: "j < length xs"
      and b: "loop_body g sc (T2 xs) (T1 ys) st
        = Inr \<lparr>s_idx = s_idx st @ [j],
               s_X = T2 (map (\<lambda>i. xs ! i) (s_idx st @ [j])),
               s_y = T1 (map (\<lambda>i. ys ! i) (s_idx st @ [j]))\<rparr>"
      by blast
    from c j have "consistent xs ys \<lparr>s_idx = s_idx st @ [j],
               s_X = T2 (map (\<lambda>i. xs ! i) (s_idx st @ [j])),
               s_y = T1 (map (\<lambda>i. ys ! i) (s_idx st @ [j]))\<rparr>"
      by (simp add: consistent_def)
    with l t b show ?thesis by (simp add: P_def)
  qed
  have "P (n - n) st0" using st0(1) by (simp add: P_def)
  from for_range_inv[of n P "loop_body g sc (T2 xs) (T1 ys)" n st0, OF step _ this]
  show ?thesis by (simp add: P_def)
qed

lemma pigeonhole_repeat:
  assumes "list_all (\<lambda>i. i < N) ix" "N < length ix"
  shows "\<not> distinct ix"
proof
  assume "distinct ix"
  then have "card (set ix) = length ix" by (rule distinct_card)
  moreover have "set ix \<subseteq> {..<N}" using assms(1) by (auto simp: list_all_iff)
  then have "card (set ix) \<le> card {..<N}" by (intro card_mono) simp_all
  ultimately show False using assms(2) by simp
qed

lemma pigeonhole_free:
  assumes "list_all (\<lambda>i. i < N) ix" "length ix < N"
  shows "\<exists>k<N. k \<notin> set ix"
proof (rule ccontr)
  assume "\<not> (\<exists>k<N. k \<notin> set ix)"
  then have "{..<N} \<subseteq> set ix" by auto
  then have "card {..<N} \<le> card (set ix)" by (intro card_mono) simp_all
  moreover have "card (set ix) \<le> length ix" by (rule card_length)
  ultimately show False using assms(2) by simp
qed

lemma campaign_total:
  assumes pool: "pool_ok d xs ys" and p: "is_randperm (length xs) p"
    and g: "surrogate_ok (length xs) g" and n: "0 < n_initial"
  shows "\<exists>st. campaign g (T2 xs) (T1 ys) p op_budget n_initial = Inr st
      \<and> consistent xs ys st
      \<and> length (s_idx st) = min n_initial (length xs) + op_budget
      \<and> take (min n_initial (length xs)) (s_idx st) = take n_initial p"
proof -
  from campaign_unfold[OF pool p, of n_initial g] obtain sc where sc: "fitted d sc"
    and c0: "consistent xs ys (initial_state xs ys p n_initial)"
    and run: "\<And>k. campaign g (T2 xs) (T1 ys) p k n_initial
             = for_range k (loop_body g sc (T2 xs) (T1 ys)) (initial_state xs ys p n_initial)"
    by blast
  have i0: "s_idx (initial_state xs ys p n_initial) = take n_initial p"
    by (simp add: initial_state_def)
  have l0: "length (take n_initial p) = min n_initial (length xs)"
    by (rule initial_sample(3)[OF p])
  from pool have "0 < length xs" by (simp add: pool_ok_def)
  with n l0 have ne: "s_idx (initial_state xs ys p n_initial) \<noteq> []"
    unfolding i0 by (metis length_greater_0_conv min_less_iff_conj)
  from run_from[OF pool sc g c0 ne, of op_budget] show ?thesis
    unfolding run i0 l0 by blast
qed

section \<open>Concrete runs\<close>

lemmas eval_defs = campaign_def loop_body_def fit_def transform_def fit_transform_def clone_def
  mean0_def std0_def new_TorchStandardScaler_def ncols_def col_def mean_l_def std_l_def
  attr_def idiv_def nonfinite_guard_def bmat_def bvec_def bdim_def UCB_def argmax_def max_l_def
  flat_surrogate_def numeral_2_eq_2

lemma flat_surrogate_ok: "surrogate_ok N (flat_surrogate N)"
  by (simp add: surrogate_ok_def flat_surrogate_def)

lemma flat_surrogate_above: "scores_above_sentinel N (flat_surrogate N)"
  by (simp add: scores_above_sentinel_def flat_surrogate_def list_all_iff)

lemma demo_pool: "pool_ok 1 [[0], [2]] [1, 3]"
  by (simp add: pool_ok_def rect_def)

lemma demo_perm: "is_randperm (length [[0::real], [2]]) [1, 0]"
  by (simp add: is_randperm_def upt_rec)

section \<open>The loop runs its whole budget\<close>

text \<open>
  Claim C4, as amended. On a pool of \<open>N \<ge> 1\<close> candidates, with \<open>n_initial\<close> positive and a
  surrogate that returns a posterior over the \<open>N\<close> candidates at every call, the campaign
  returns after exactly \<open>op_budget\<close> iterations, whatever the scores are: there is no
  early exit. The final index sequence has \<open>min n_initial N + op_budget\<close> entries, which is
  \<open>n_initial + op_budget\<close> when \<open>n_initial \<le> N\<close>; all lie below \<open>N\<close>; it starts with the initial
  sample, and the sequence after \<open>k\<close> iterations is its prefix of length
  \<open>min n_initial N + k\<close>: the entries stand in the order of their selection.
\<close>

theorem campaign_runs_full_budget:
  assumes pool: "pool_ok d xs ys" and p: "is_randperm (length xs) p"
    and g: "surrogate_ok (length xs) g" and n: "0 < n_initial"
  shows "\<exists>st. campaign g (T2 xs) (T1 ys) p op_budget n_initial = Inr st
      \<and> length (s_idx st) = min n_initial (length xs) + op_budget
      \<and> list_all (\<lambda>i. i < length xs) (s_idx st)
      \<and> take (min n_initial (length xs)) (s_idx st) = take n_initial p
      \<and> (\<forall>k\<le>op_budget. \<exists>st_k. campaign g (T2 xs) (T1 ys) p k n_initial = Inr st_k
            \<and> s_idx st_k = take (min n_initial (length xs) + k) (s_idx st))"
proof -
  from campaign_unfold[OF pool p, of n_initial g] obtain sc where sc: "fitted d sc"
    and run: "\<And>k. campaign g (T2 xs) (T1 ys) p k n_initial
             = for_range k (loop_body g sc (T2 xs) (T1 ys)) (initial_state xs ys p n_initial)"
    by blast
  from campaign_total[OF pool p g n, of op_budget] obtain st where
    st: "campaign g (T2 xs) (T1 ys) p op_budget n_initial = Inr st"
    and c: "consistent xs ys st"
    and l: "length (s_idx st) = min n_initial (length xs) + op_budget"
    and t: "take (min n_initial (length xs)) (s_idx st) = take n_initial p"
    by blast
  have pre: "\<exists>st_k. campaign g (T2 xs) (T1 ys) p k n_initial = Inr st_k
            \<and> s_idx st_k = take (min n_initial (length xs) + k) (s_idx st)"
    if "k \<le> op_budget" for k
  proof -
    from campaign_total[OF pool p g n, of k] obtain st_k where
      sk: "campaign g (T2 xs) (T1 ys) p k n_initial = Inr st_k"
      and ck: "consistent xs ys st_k"
      and lk: "length (s_idx st_k) = min n_initial (length xs) + k"
      by blast
    from pool have "xs \<noteq> []" by (simp add: pool_ok_def)
    with n have "0 < min n_initial (length xs)" by (cases xs) (simp_all add: min_def)
    then have "0 < length (s_idx st_k)" unfolding lk by simp
    then have ne: "s_idx st_k \<noteq> []" by simp
    from that have "op_budget = k + (op_budget - k)" by simp
    then have "campaign g (T2 xs) (T1 ys) p op_budget n_initial
        = ebind (campaign g (T2 xs) (T1 ys) p k n_initial)
            (for_range (op_budget - k) (loop_body g sc (T2 xs) (T1 ys)))"
      unfolding run by (metis for_range_add)
    with st sk have "for_range (op_budget - k) (loop_body g sc (T2 xs) (T1 ys)) st_k = Inr st"
      by simp
    with run_from[OF pool sc g ck ne, of "op_budget - k"]
    have "take (length (s_idx st_k)) (s_idx st) = s_idx st_k" by auto
    with sk lk show ?thesis by simp
  qed
  from c have "list_all (\<lambda>i. i < length xs) (s_idx st)" by (simp add: consistent_def)
  with st l t pre show ?thesis by blast
qed

theorem campaign_runs_full_budget_witness:
  "pool_ok 1 [[0], [2]] [1, 3] \<and> is_randperm (length [[0::real], [2]]) [1, 0]
   \<and> surrogate_ok (length [[0::real], [2]]) (flat_surrogate 2) \<and> (0::nat) < 1
   \<and> (\<exists>st. campaign (flat_surrogate 2) (T2 [[0], [2]]) (T1 [1, 3]) [1, 0] 1 1 = Inr st
      \<and> length (s_idx st) = min 1 (length [[0::real], [2]]) + 1
      \<and> s_idx st = [1, 0])"
proof -
  have g: "surrogate_ok (length [[0::real], [2]]) (flat_surrogate 2)"
    using flat_surrogate_ok[of 2] by (simp add: numeral_2_eq_2)
  have n: "(0::nat) < 1" by simp
  from campaign_runs_full_budget[OF demo_pool demo_perm g n, of 1]
  obtain st where st: "campaign (flat_surrogate 2) (T2 [[0], [2]]) (T1 [1, 3]) [1, 0] 1 1 = Inr st"
    and l: "length (s_idx st) = min 1 (length [[0::real], [2]]) + 1"
    by blast
  have "campaign (flat_surrogate 2) (T2 [[0], [2]]) (T1 [1, 3]) [1, 0] 1 1
     = Inr \<lparr>s_idx = [1, 0], s_X = T2 [[2], [0]], s_y = T1 [3, 1]\<rparr>"
    by (simp add: eval_defs)
  with st have "s_idx st = [1, 0]" by auto
  with st l demo_pool demo_perm g n show ?thesis by blast
qed

text \<open>
  The claim as stated counts \<open>n_initial + op_budget\<close> entries for every positive
  \<open>n_initial\<close>. The slice \<^verbatim>\<open>torch.randperm(N)[:n_initial]\<close> holds only \<open>N\<close> indices when
  \<open>n_initial > N\<close>: with \<open>N = 2\<close>, \<open>n_initial = 3\<close> and \<open>op_budget = 1\<close> the result has three
  entries, not four.
\<close>

theorem oversized_initial_sample_counterexample:
  "campaign (flat_surrogate 2) (T2 [[0], [2]]) (T1 [1, 3]) [1, 0] 1 3
     = Inr \<lparr>s_idx = [1, 0, 0], s_X = T2 [[2], [0], [0]], s_y = T1 [3, 1, 1]\<rparr>
   \<and> length [1, 0, 0 :: nat] \<noteq> 3 + 1"
  by (simp add: eval_defs)

section \<open>No configuration is rejected\<close>

text \<open>
  Claim C3, as amended. The notebook checks no configuration. On a pool of \<open>N \<ge> 1\<close>
  candidates, with a surrogate that returns a posterior at every call, a configuration
  with \<open>n_initial \<ge> N\<close> or \<open>n_initial + op_budget \<ge> N\<close> (\<open>n_initial\<close> positive) is run like
  any other: the campaign reports no error, the loop runs its \<open>op_budget\<close> iterations
  and appends one index in each, and once the sequence is longer than the pool it
  holds an index twice. The exploration coefficient is no configuration input: the loop
  calls \<^verbatim>\<open>UCB\<close> with the default 2.
\<close>

theorem exhausting_configuration_runs:
  assumes pool: "pool_ok d xs ys" and p: "is_randperm (length xs) p"
    and g: "surrogate_ok (length xs) g" and n: "0 < n_initial"
    and ex: "length xs \<le> n_initial + op_budget"
  shows "\<exists>st. campaign g (T2 xs) (T1 ys) p op_budget n_initial = Inr st
      \<and> length (s_idx st) = min n_initial (length xs) + op_budget
      \<and> (length xs < min n_initial (length xs) + op_budget \<longrightarrow> \<not> distinct (s_idx st))"
proof -
  from campaign_total[OF pool p g n, of op_budget] obtain st where
    st: "campaign g (T2 xs) (T1 ys) p op_budget n_initial = Inr st"
    and c: "consistent xs ys st"
    and l: "length (s_idx st) = min n_initial (length xs) + op_budget"
    by blast
  from c have r: "list_all (\<lambda>i. i < length xs) (s_idx st)" by (simp add: consistent_def)
  have "\<not> distinct (s_idx st)" if "length xs < min n_initial (length xs) + op_budget"
    using r that unfolding l[symmetric] by (rule pigeonhole_repeat)
  with st l show ?thesis by blast
qed

theorem exhausting_configuration_runs_witness:
  "pool_ok 1 [[0], [2]] [1, 3] \<and> is_randperm (length [[0::real], [2]]) [1, 0]
   \<and> surrogate_ok (length [[0::real], [2]]) (flat_surrogate 2) \<and> (0::nat) < 2
   \<and> length [[0::real], [2]] \<le> 2 + 1
   \<and> (\<exists>st. campaign (flat_surrogate 2) (T2 [[0], [2]]) (T1 [1, 3]) [1, 0] 1 2 = Inr st
      \<and> length (s_idx st) = min 2 (length [[0::real], [2]]) + 1
      \<and> \<not> distinct (s_idx st))"
proof -
  have g: "surrogate_ok (length [[0::real], [2]]) (flat_surrogate 2)"
    using flat_surrogate_ok[of 2] by (simp add: numeral_2_eq_2)
  have n: "(0::nat) < 2" by simp
  have ex: "length [[0::real], [2]] \<le> 2 + 1" by simp
  from exhausting_configuration_runs[OF demo_pool demo_perm g n ex]
  obtain st where st: "campaign (flat_surrogate 2) (T2 [[0], [2]]) (T1 [1, 3]) [1, 0] 1 2 = Inr st"
    and l: "length (s_idx st) = min 2 (length [[0::real], [2]]) + 1"
    and d: "length [[0::real], [2]] < min 2 (length [[0::real], [2]]) + 1 \<longrightarrow> \<not> distinct (s_idx st)"
    by blast
  from d have "\<not> distinct (s_idx st)" by simp
  with st l demo_pool demo_perm g n ex show ?thesis by blast
qed

text \<open>
  The claim as stated has \<open>n_initial \<ge> N\<close> reported as an error before the loop runs.
  With \<open>N = 2\<close>, \<open>n_initial = 2\<close> and \<open>op_budget = 1\<close> the campaign returns a result: the loop
  has run and has appended a third index.
\<close>

theorem unchecked_configuration_counterexample:
  "length [[0::real], [2]] \<le> 2
   \<and> campaign (flat_surrogate 2) (T2 [[0], [2]]) (T1 [1, 3]) [1, 0] 1 2
     = Inr \<lparr>s_idx = [1, 0, 0], s_X = T2 [[2], [0], [0]], s_y = T1 [3, 1, 1]\<rparr>"
  by (simp add: eval_defs)

section \<open>The evaluated indices stay distinct while the sentinel is below every score\<close>

lemma scores_above_ok: "scores_above_sentinel N g \<Longrightarrow> surrogate_ok N g"
  unfolding scores_above_sentinel_def surrogate_ok_def by blast

lemma loop_body_fresh:
  assumes pool: "pool_ok d xs ys"
    and sc: "fitted d sc"
    and g: "scores_above_sentinel (length xs) g"
    and st: "consistent xs ys st" "s_idx st \<noteq> []"
    and room: "length (s_idx st) < length xs"
  shows "\<exists>j. j < length xs \<and> j \<notin> set (s_idx st)
    \<and> loop_body g sc (T2 xs) (T1 ys) st
        = Inr \<lparr>s_idx = s_idx st @ [j],
               s_X = T2 (map (\<lambda>i. xs ! i) (s_idx st @ [j])),
               s_y = T1 (map (\<lambda>i. ys ! i) (s_idx st @ [j]))\<rparr>"
proof -
  from loop_body_step[OF pool sc scores_above_ok[OF g] st]
  obtain j gp Xq m s where pr: "gp_predict g gp Xq = Inr \<lparr>pmean = T1 m, stddev = T1 s\<rparr>"
    and len: "length m = length xs" "length s = length xs"
    and am: "argmax (T1 (fold (\<lambda>i u. u[i := - 100]) (s_idx st) (map2 (\<lambda>a b. a + 2 * b) m s))) = Inr j"
    and j: "j < length xs"
    and b: "loop_body g sc (T2 xs) (T1 ys) st
        = Inr \<lparr>s_idx = s_idx st @ [j],
               s_X = T2 (map (\<lambda>i. xs ! i) (s_idx st @ [j])),
               s_y = T1 (map (\<lambda>i. ys ! i) (s_idx st @ [j]))\<rparr>"
    by blast
  from g obtain m' s' where pr': "gp_predict g gp Xq = Inr \<lparr>pmean = T1 m', stddev = T1 s'\<rparr>"
    and ab: "list_all (\<lambda>v. - 100 < v) (map2 (\<lambda>a b. a + 2 * b) m' s')"
    unfolding scores_above_sentinel_def by blast
  from pr pr' have "m' = m" "s' = s" by simp_all
  with ab have above: "list_all (\<lambda>v. - 100 < v) (map2 (\<lambda>a b. a + 2 * b) m s)" by simp
  from st(1) have ix: "list_all (\<lambda>i. i < length xs) (s_idx st)" by (simp add: consistent_def)
  from pigeonhole_free[OF ix room] obtain k where k: "k < length xs" "k \<notin> set (s_idx st)"
    by blast
  have la: "length (map2 (\<lambda>a b. a + 2 * b) m s) = length xs" using len by simp
  with k(1) have kl: "k < length (map2 (\<lambda>a b. a + 2 * b) m s)" by simp
  with above have "- 100 < map2 (\<lambda>a b. a + 2 * b) m s ! k"
    by (simp only: list_all_length)
  from masked_argmax_fresh[OF kl k(2) this am] have "j \<notin> set (s_idx st)" .
  with j b show ?thesis by blast
qed

lemma run_from_distinct:
  assumes pool: "pool_ok d xs ys" and sc: "fitted d sc"
    and g: "scores_above_sentinel (length xs) g"
    and st0: "consistent xs ys st0" "s_idx st0 \<noteq> []" "distinct (s_idx st0)"
    and room: "length (s_idx st0) + n \<le> length xs"
  shows "\<exists>st. for_range n (loop_body g sc (T2 xs) (T1 ys)) st0 = Inr st
      \<and> consistent xs ys st
      \<and> length (s_idx st) = length (s_idx st0) + n
      \<and> take (length (s_idx st0)) (s_idx st) = s_idx st0
      \<and> distinct (s_idx st)"
proof -
  define P where "P k st \<longleftrightarrow> consistent xs ys st
      \<and> length (s_idx st) = length (s_idx st0) + k
      \<and> take (length (s_idx st0)) (s_idx st) = s_idx st0
      \<and> distinct (s_idx st)" for k st
  have step: "\<exists>st'. loop_body g sc (T2 xs) (T1 ys) st = Inr st' \<and> P (Suc k) st'"
    if "k < n" "P k st" for k st
  proof -
    from that(2) have c: "consistent xs ys st"
      and l: "length (s_idx st) = length (s_idx st0) + k"
      and t: "take (length (s_idx st0)) (s_idx st) = s_idx st0"
      and d: "distinct (s_idx st)"
      by (simp_all add: P_def)
    from l st0(2) have ne: "s_idx st \<noteq> []" by auto
    from l that(1) room have r: "length (s_idx st) < length xs" by simp
    from loop_body_fresh[OF pool sc g c ne r] obtain j where j: "j < length xs"
      "j \<notin> set (s_idx st)"
      and b: "loop_body g sc (T2 xs) (T1 ys) st
        = Inr \<lparr>s_idx = s_idx st @ [j],
               s_X = T2 (map (\<lambda>i. xs ! i) (s_idx st @ [j])),
               s_y = T1 (map (\<lambda>i. ys ! i) (s_idx st @ [j]))\<rparr>"
      by blast
    from c j(1) have "consistent xs ys \<lparr>s_idx = s_idx st @ [j],
               s_X = T2 (map (\<lambda>i. xs ! i) (s_idx st @ [j])),
               s_y = T1 (map (\<lambda>i. ys ! i) (s_idx st @ [j]))\<rparr>"
      by (simp add: consistent_def)
    with l t d j(2) b show ?thesis by (simp add: P_def)
  qed
  have "P (n - n) st0" using st0(1,3) by (simp add: P_def)
  from for_range_inv[of n P "loop_body g sc (T2 xs) (T1 ys)" n st0, OF step _ this]
  show ?thesis by (simp add: P_def)
qed

text \<open>
  Claim C2, as amended. Let the pool have \<open>N \<ge> 1\<close> candidates, let \<open>n_initial\<close> be positive
  with \<open>n_initial + op_budget \<le> N\<close>, and let every upper confidence bound that the
  surrogate yields lie above \<open>-100\<close>. Then iteration \<open>k + 1\<close> of the run (\<open>k < op_budget\<close>)
  takes the index sequence of \<open>n_initial + k\<close> entries that iteration \<open>k\<close> left, which
  starts with the initial sample, and appends exactly one index, which lies in \<open>[0, N)\<close>
  and is not yet in the sequence; the sequence stays free of duplicates and in range.
  The state after \<open>k\<close> iterations is what the campaign returns for the budget \<open>k\<close>, and the
  full run continues from the state after \<open>k + 1\<close> iterations.
\<close>

theorem evaluated_indices_grow_by_one_fresh:
  assumes pool: "pool_ok d xs ys" and p: "is_randperm (length xs) p"
    and g: "scores_above_sentinel (length xs) g" and n: "0 < n_initial"
    and room: "n_initial + op_budget \<le> length xs" and k: "k < op_budget"
  shows "\<exists>sc st st' j.
       fit new_TorchStandardScaler (T2 xs) = Inr sc
     \<and> campaign g (T2 xs) (T1 ys) p k n_initial = Inr st
     \<and> loop_body g sc (T2 xs) (T1 ys) st = Inr st'
     \<and> campaign g (T2 xs) (T1 ys) p (Suc k) n_initial = Inr st'
     \<and> campaign g (T2 xs) (T1 ys) p op_budget n_initial
         = for_range (op_budget - Suc k) (loop_body g sc (T2 xs) (T1 ys)) st'
     \<and> s_idx st' = s_idx st @ [j] \<and> j < length xs \<and> j \<notin> set (s_idx st)
     \<and> length (s_idx st) = n_initial + k
     \<and> take n_initial (s_idx st) = take n_initial p
     \<and> distinct (s_idx st') \<and> list_all (\<lambda>i. i < length xs) (s_idx st')"
proof -
  let ?body = "loop_body g sc (T2 xs) (T1 ys)"
  from campaign_unfold[OF pool p, of n_initial g] obtain sc
    where f: "fit new_TorchStandardScaler (T2 xs) = Inr sc" and sc: "fitted d sc"
    and c0: "consistent xs ys (initial_state xs ys p n_initial)"
    and run: "\<And>k. campaign g (T2 xs) (T1 ys) p k n_initial
             = for_range k (loop_body g sc (T2 xs) (T1 ys)) (initial_state xs ys p n_initial)"
    by blast
  let ?st0 = "initial_state xs ys p n_initial"
  have i0: "s_idx ?st0 = take n_initial p" by (simp add: initial_state_def)
  from room have "min n_initial (length xs) = n_initial" by simp
  with initial_sample(3)[OF p, of n_initial] have l0: "length (s_idx ?st0) = n_initial"
    by (simp only: i0)
  then have l0': "length (take n_initial p) = n_initial" by (simp only: i0)
  from l0 n have ne0: "s_idx ?st0 \<noteq> []" by auto
  have d0: "distinct (s_idx ?st0)" unfolding i0 by (rule initial_sample(2)[OF p])
  from room k have rk: "length (s_idx ?st0) + k \<le> length xs" by (simp add: l0)
  from run_from_distinct[OF pool sc g c0 ne0 d0 rk] obtain st where
    st: "for_range k (loop_body g sc (T2 xs) (T1 ys)) ?st0 = Inr st"
    and c: "consistent xs ys st"
    and l: "length (s_idx st) = n_initial + k"
    and t: "take n_initial (s_idx st) = take n_initial p"
    and d: "distinct (s_idx st)"
    unfolding i0 l0' by blast
  from l n have ne: "s_idx st \<noteq> []" by auto
  from l room k have r: "length (s_idx st) < length xs" by simp
  from loop_body_fresh[OF pool sc g c ne r] obtain j where j: "j < length xs"
    "j \<notin> set (s_idx st)"
    and b: "loop_body g sc (T2 xs) (T1 ys) st
        = Inr \<lparr>s_idx = s_idx st @ [j],
               s_X = T2 (map (\<lambda>i. xs ! i) (s_idx st @ [j])),
               s_y = T1 (map (\<lambda>i. ys ! i) (s_idx st @ [j]))\<rparr>"
    by blast
  define st' where "st' = \<lparr>s_idx = s_idx st @ [j],
               s_X = T2 (map (\<lambda>i. xs ! i) (s_idx st @ [j])),
               s_y = T1 (map (\<lambda>i. ys ! i) (s_idx st @ [j]))\<rparr>"
  have b': "loop_body g sc (T2 xs) (T1 ys) st = Inr st'" by (simp only: b st'_def)
  have i': "s_idx st' = s_idx st @ [j]" by (simp add: st'_def)
  have sk: "campaign g (T2 xs) (T1 ys) p (Suc k) n_initial = Inr st'"
    unfolding run for_range_Suc_right st by (simp add: b')
  from k have "op_budget = Suc k + (op_budget - Suc k)" by simp
  then have "campaign g (T2 xs) (T1 ys) p op_budget n_initial
      = ebind (campaign g (T2 xs) (T1 ys) p (Suc k) n_initial)
          (for_range (op_budget - Suc k) (loop_body g sc (T2 xs) (T1 ys)))"
    unfolding run by (simp only: for_range_add[symmetric])
  then have full: "campaign g (T2 xs) (T1 ys) p op_budget n_initial
      = for_range (op_budget - Suc k) (loop_body g sc (T2 xs) (T1 ys)) st'"
    by (simp add: sk)
  have d': "distinct (s_idx st')" using d j(2) by (simp add: i')
  from c have "list_all (\<lambda>i. i < length xs) (s_idx st)" by (simp add: consistent_def)
  with j(1) have r': "list_all (\<lambda>i. i < length xs) (s_idx st')" by (simp add: i')
  have "campaign g (T2 xs) (T1 ys) p k n_initial = Inr st" by (simp only: run st)
  with f b' sk full i' j l t d' r' show ?thesis by blast
qed


theorem evaluated_indices_grow_by_one_fresh_witness:
  "pool_ok 1 [[0], [2]] [1, 3] \<and> is_randperm (length [[0::real], [2]]) [1, 0]
   \<and> scores_above_sentinel (length [[0::real], [2]]) (flat_surrogate 2) \<and> (0::nat) < 1
   \<and> 1 + 1 \<le> length [[0::real], [2]] \<and> (0::nat) < 1
   \<and> (\<exists>st st' j.
         campaign (flat_surrogate 2) (T2 [[0], [2]]) (T1 [1, 3]) [1, 0] 0 1 = Inr st
       \<and> campaign (flat_surrogate 2) (T2 [[0], [2]]) (T1 [1, 3]) [1, 0] (Suc 0) 1 = Inr st'
       \<and> s_idx st' = s_idx st @ [j] \<and> j < length [[0::real], [2]] \<and> j \<notin> set (s_idx st)
       \<and> length (s_idx st) = 1 + 0
       \<and> distinct (s_idx st'))"
proof -
  have g: "scores_above_sentinel (length [[0::real], [2]]) (flat_surrogate 2)"
    using flat_surrogate_above[of 2] by (simp add: numeral_2_eq_2)
  have n: "(0::nat) < 1" by simp
  have room: "1 + 1 \<le> length [[0::real], [2]]" by simp
  from evaluated_indices_grow_by_one_fresh[OF demo_pool demo_perm g n room n]
  have "\<exists>st st' j.
         campaign (flat_surrogate 2) (T2 [[0], [2]]) (T1 [1, 3]) [1, 0] 0 1 = Inr st
       \<and> campaign (flat_surrogate 2) (T2 [[0], [2]]) (T1 [1, 3]) [1, 0] (Suc 0) 1 = Inr st'
       \<and> s_idx st' = s_idx st @ [j] \<and> j < length [[0::real], [2]] \<and> j \<notin> set (s_idx st)
       \<and> length (s_idx st) = 1 + 0
       \<and> distinct (s_idx st')"
    by blast
  with demo_pool demo_perm g n room show ?thesis by blast
qed

text \<open>
  The claim as stated is about every run. With \<open>N = 2\<close>, \<open>n_initial = 1\<close> and
  \<open>op_budget = 2\<close> the second iteration finds every candidate evaluated, all scores are
  \<open>-100\<close>, and the first index is selected again.
\<close>

theorem exhausted_pool_duplicate_counterexample:
  "campaign (flat_surrogate 2) (T2 [[0], [2]]) (T1 [1, 3]) [1, 0] 2 1
     = Inr \<lparr>s_idx = [1, 0, 0], s_X = T2 [[2], [0], [0]], s_y = T1 [3, 1, 1]\<rparr>
   \<and> \<not> distinct [1, 0, 0 :: nat]"
  by (simp add: eval_defs)

section \<open>The scores after masking\<close>






text \<open>
  When every candidate is evaluated the loop still appends an index, whatever the
  posterior is, and that index is an evaluated one.
\<close>

lemma loop_body_exhausted:
  assumes pool: "pool_ok d xs ys"
    and sc: "fitted d sc"
    and g: "surrogate_ok (length xs) g"
    and st: "consistent xs ys st" "s_idx st \<noteq> []"
    and all: "\<forall>k<length xs. k \<in> set (s_idx st)"
  shows "\<exists>j. j \<in> set (s_idx st)
    \<and> loop_body g sc (T2 xs) (T1 ys) st
        = Inr \<lparr>s_idx = s_idx st @ [j],
               s_X = T2 (map (\<lambda>i. xs ! i) (s_idx st @ [j])),
               s_y = T1 (map (\<lambda>i. ys ! i) (s_idx st @ [j]))\<rparr>"
proof -
  from loop_body_step[OF pool sc g st] obtain j where j: "j < length xs"
    and b: "loop_body g sc (T2 xs) (T1 ys) st
        = Inr \<lparr>s_idx = s_idx st @ [j],
               s_X = T2 (map (\<lambda>i. xs ! i) (s_idx st @ [j])),
               s_y = T1 (map (\<lambda>i. ys ! i) (s_idx st @ [j]))\<rparr>"
    by blast
  from all j have "j \<in> set (s_idx st)" by blast
  with b show ?thesis by blast
qed


section \<open>The min-max normalizer\<close>

lemma outplace_row:
  "rect d z \<Longrightarrow> length b = d \<Longrightarrow>
     outplace f (T2 z) (T1 b) = Inr (T2 (map (\<lambda>r. map2 f r b) z))"
proof (cases "z = []")
  case True
  then show ?thesis by simp
next
  case False
  assume r: "rect d z" and b: "length b = d"
  have "map (\<lambda>row. map2 f (the (bvec d row)) (the (bvec d b))) z = map (\<lambda>r. map2 f r b) z"
    using r b by (intro map_cong) (auto simp: rect_def list_all_iff)
  with False r b show ?thesis by (simp add: rect_ncols)
qed

text \<open>
  Where no column of the fitting data is constant the normalizer computes
  \<open>(z - min) / (max - min)\<close>, entry by entry.
\<close>

lemma normalizer_transform_formula:
  assumes "rect d z" "length mx = d" "length mn = d" "0 \<notin> set (map2 (-) mx mn)"
  shows "normalizer_transform \<lparr>max_attr = Some (T1 mx), min_attr = Some (T1 mn)\<rparr> (T2 z)
      = Inr (T2 (map (\<lambda>r. map2 (/) (map2 (-) r mn) (map2 (-) mx mn)) z))"
proof -
  have r1: "rect d (map (\<lambda>r. map2 (-) r mn) z)"
    using assms(1,3) by (rule rect_map2)
  have a: "outplace (-) (T2 z) (T1 mn) = Inr (T2 (map (\<lambda>r. map2 (-) r mn) z))"
    using assms(1,3) by (rule outplace_row)
  have b: "outplace (-) (T1 mx) (T1 mn) = Inr (T1 (map2 (-) mx mn))"
    using assms(2,3) by simp
  have c: "outplace (/) (T2 (map (\<lambda>r. map2 (-) r mn) z)) (T1 (map2 (-) mx mn))
      = Inr (T2 (map (\<lambda>r. map2 (/) r (map2 (-) mx mn)) (map (\<lambda>r. map2 (-) r mn) z)))"
    using r1 assms(2,3) by (intro outplace_row) simp_all
  have "odiv (T2 (map (\<lambda>r. map2 (-) r mn) z)) (T1 (map2 (-) mx mn))
      = Inr (T2 (map (\<lambda>r. map2 (/) r (map2 (-) mx mn)) (map (\<lambda>r. map2 (-) r mn) z)))"
    unfolding odiv_def c using assms(4) by (intro guard_pass) simp
  then show ?thesis
    unfolding normalizer_transform_def clone_def
    by (simp add: attr_def a b comp_def del: outplace.simps)
qed

text \<open>
  Claim C8, at an input where the code departs from it. The second column of the data is
  constant. \<^verbatim>\<open>fit\<close> stores equal maximum and minimum for it, the divisor \<open>max - min\<close> is zero
  there, and \<^verbatim>\<open>transform\<close> and \<^verbatim>\<open>fit_transform\<close> divide by it: nothing is added to the
  divisor, unlike in \<^verbatim>\<open>TorchStandardScaler\<close>, and the result is not finite.
\<close>

theorem normalizer_constant_column_unguarded:
  "normalizer_fit new_TorchNormalizer (T2 [[1, 7], [3, 7]])
     = Inr \<lparr>max_attr = Some (T1 [3, 7]), min_attr = Some (T1 [1, 7])\<rparr>
   \<and> outplace (-) (T1 [3, 7]) (T1 [1, 7]) = Inr (T1 [2, 0])
   \<and> normalizer_transform \<lparr>max_attr = Some (T1 [3, 7]), min_attr = Some (T1 [1, 7])\<rparr>
        (T2 [[1, 7], [3, 7]]) = Inl NonFinite
   \<and> normalizer_fit_transform new_TorchNormalizer (T2 [[1, 7], [3, 7]]) = Inl NonFinite"
  by (simp add: normalizer_fit_def normalizer_transform_def normalizer_fit_transform_def
      new_TorchNormalizer_def ncols_def col_def max_l_def min_l_def attr_def clone_def
      odiv_def nonfinite_guard_def bdim_def bvec_def upt_rec)

section \<open>The methods and the arrays of their caller\<close>

lemmas mem_defs = alloc_def Let_def kept_or_fresh_def fresh_result_def

lemma fit_mem_frame:
  "(case fit_mem h self x of (h', self', res) \<Rightarrow>
      take (length h) h' = h
      \<and> kept_or_fresh h (mean_ref self) (mean_ref self')
      \<and> kept_or_fresh h (std_ref self) (std_ref self'))"
  by (simp add: fit_mem_def mem_defs split: sum.splits)

lemma transform_mem_frame:
  "(case transform_mem h self x of (h', res) \<Rightarrow>
      take (length h) h' = h \<and> fresh_result h h' res)"
  by (simp add: transform_mem_def mem_defs split: sum.splits option.splits)

lemma fit_transform_mem_frame:
  "(case fit_transform_mem h self x of (h', self', res) \<Rightarrow>
      take (length h) h' = h \<and> fresh_result h h' res
      \<and> kept_or_fresh h (mean_ref self) (mean_ref self')
      \<and> kept_or_fresh h (std_ref self) (std_ref self'))"
  by (simp add: fit_transform_mem_def mem_defs split: sum.splits)

lemma reverse_mem_frame:
  "(case reverse_mem h self x of (h', res) \<Rightarrow>
      take (length h) h' = h \<and> fresh_result h h' res)"
  by (simp add: reverse_mem_def mem_defs split: sum.splits option.splits)

lemma normalizer_fit_mem_frame:
  "(case normalizer_fit_mem h self x of (h', self', res) \<Rightarrow>
      take (length h) h' = h
      \<and> kept_or_fresh h (max_ref self) (max_ref self')
      \<and> kept_or_fresh h (min_ref self) (min_ref self'))"
  by (simp add: normalizer_fit_mem_def mem_defs split: sum.splits)

lemma normalizer_transform_mem_frame:
  "(case normalizer_transform_mem h self x of (h', res) \<Rightarrow>
      take (length h) h' = h \<and> fresh_result h h' res)"
  by (simp add: normalizer_transform_mem_def mem_defs split: sum.splits option.splits)

lemma normalizer_fit_transform_mem_frame:
  "(case normalizer_fit_transform_mem h self x of (h', self', res) \<Rightarrow>
      take (length h) h' = h \<and> fresh_result h h' res
      \<and> kept_or_fresh h (max_ref self) (max_ref self')
      \<and> kept_or_fresh h (min_ref self) (min_ref self'))"
  by (simp add: normalizer_fit_transform_mem_def mem_defs split: sum.splits)

text \<open>
  The methods on objects compute what the methods on values compute: the same outcome,
  and in the case of a result the object it refers to holds the value.
\<close>

lemma fit_mem_refines:
  assumes "x < length h"
  shows "(case fit_mem h self x of (h', self', res) \<Rightarrow>
      (case res of
         Inl e \<Rightarrow> fit (scaler_value h self) (h ! x) = Inl e
       | Inr u \<Rightarrow> fit (scaler_value h self) (h ! x) = Inr (scaler_value h' self')))"
  using assms
  by (simp add: fit_mem_def fit_def clone_def mem_defs scaler_value_def nth_append
      split: sum.splits)

lemma transform_mem_refines:
  assumes "x < length h" "valid_ref h (mean_ref self)" "valid_ref h (std_ref self)"
  shows "(case transform_mem h self x of (h', res) \<Rightarrow>
      (case res of
         Inl e \<Rightarrow> transform (scaler_value h self) (h ! x) = Inl e
       | Inr r \<Rightarrow> transform (scaler_value h self) (h ! x) = Inr (h' ! r)))"
  using assms
  by (auto simp: transform_mem_def transform_def clone_def mem_defs scaler_value_def
      valid_ref_def attr_def nth_append split: sum.splits option.splits)

lemma fit_transform_mem_refines:
  assumes "x < length h"
  shows "(case fit_transform_mem h self x of (h', self', res) \<Rightarrow>
      (case res of
         Inl e \<Rightarrow> fit_transform (scaler_value h self) (h ! x) = Inl e
       | Inr r \<Rightarrow> fit_transform (scaler_value h self) (h ! x)
                  = Inr (scaler_value h' self', h' ! r)))"
  using assms
  by (auto simp: fit_transform_mem_def fit_transform_def clone_def mem_defs scaler_value_def
      nth_append split: sum.splits)

lemma reverse_mem_refines:
  assumes "x < length h" "valid_ref h (mean_ref self)" "valid_ref h (std_ref self)"
  shows "(case reverse_mem h self x of (h', res) \<Rightarrow>
      (case res of
         Inl e \<Rightarrow> reverse (scaler_value h self) (h ! x) = Inl e
       | Inr r \<Rightarrow> reverse (scaler_value h self) (h ! x) = Inr (h' ! r)))"
  using assms
  by (auto simp: reverse_mem_def reverse_def clone_def mem_defs scaler_value_def
      valid_ref_def attr_def nth_append split: sum.splits option.splits)

lemma normalizer_fit_mem_refines:
  assumes "x < length h"
  shows "(case normalizer_fit_mem h self x of (h', self', res) \<Rightarrow>
      (case res of
         Inl e \<Rightarrow> normalizer_fit (normalizer_value h self) (h ! x) = Inl e
       | Inr u \<Rightarrow> normalizer_fit (normalizer_value h self) (h ! x)
                  = Inr (normalizer_value h' self')))"
  using assms
  by (auto simp: normalizer_fit_mem_def normalizer_fit_def mem_defs normalizer_value_def
      nth_append split: sum.splits)

lemma normalizer_transform_mem_refines:
  assumes "x < length h" "valid_ref h (max_ref self)" "valid_ref h (min_ref self)"
  shows "(case normalizer_transform_mem h self x of (h', res) \<Rightarrow>
      (case res of
         Inl e \<Rightarrow> normalizer_transform (normalizer_value h self) (h ! x) = Inl e
       | Inr r \<Rightarrow> normalizer_transform (normalizer_value h self) (h ! x) = Inr (h' ! r)))"
  using assms
  by (auto simp: normalizer_transform_mem_def normalizer_transform_def clone_def mem_defs
      normalizer_value_def valid_ref_def attr_def nth_append split: sum.splits option.splits)

lemma normalizer_fit_transform_mem_refines:
  assumes "x < length h"
  shows "(case normalizer_fit_transform_mem h self x of (h', self', res) \<Rightarrow>
      (case res of
         Inl e \<Rightarrow> normalizer_fit_transform (normalizer_value h self) (h ! x) = Inl e
       | Inr r \<Rightarrow> normalizer_fit_transform (normalizer_value h self) (h ! x)
                  = Inr (normalizer_value h' self', h' ! r)))"
  using assms
  by (auto simp: normalizer_fit_transform_mem_def normalizer_fit_transform_def clone_def
      mem_defs normalizer_value_def nth_append split: sum.splits)

text \<open>
  Claim C9. Whatever the memory, the object and the argument, each method of
  \<^verbatim>\<open>TorchStandardScaler\<close> (\<^verbatim>\<open>fit\<close>, \<^verbatim>\<open>transform\<close>, \<^verbatim>\<open>fit_transform\<close>, \<^verbatim>\<open>reverse\<close>) and of
  \<^verbatim>\<open>TorchNormalizer\<close> (\<^verbatim>\<open>fit\<close>, \<^verbatim>\<open>transform\<close>, \<^verbatim>\<open>fit_transform\<close>) leaves every tensor object
  that existed before the call as it was, the array of the caller among them, also when
  that array is one of the attributes. A tensor it returns is an object allocated during
  the call, and an attribute it assigns refers to an object allocated during the call.
\<close>

theorem methods_never_write_caller_arrays:
  "(case fit_mem h self x of (h', self', res) \<Rightarrow>
      take (length h) h' = h
      \<and> kept_or_fresh h (mean_ref self) (mean_ref self')
      \<and> kept_or_fresh h (std_ref self) (std_ref self'))
   \<and> (case transform_mem h self x of (h', res) \<Rightarrow>
      take (length h) h' = h \<and> fresh_result h h' res)
   \<and> (case fit_transform_mem h self x of (h', self', res) \<Rightarrow>
      take (length h) h' = h \<and> fresh_result h h' res
      \<and> kept_or_fresh h (mean_ref self) (mean_ref self')
      \<and> kept_or_fresh h (std_ref self) (std_ref self'))
   \<and> (case reverse_mem h self x of (h', res) \<Rightarrow>
      take (length h) h' = h \<and> fresh_result h h' res)
   \<and> (case normalizer_fit_mem h nself x of (h', self', res) \<Rightarrow>
      take (length h) h' = h
      \<and> kept_or_fresh h (max_ref nself) (max_ref self')
      \<and> kept_or_fresh h (min_ref nself) (min_ref self'))
   \<and> (case normalizer_transform_mem h nself x of (h', res) \<Rightarrow>
      take (length h) h' = h \<and> fresh_result h h' res)
   \<and> (case normalizer_fit_transform_mem h nself x of (h', self', res) \<Rightarrow>
      take (length h) h' = h \<and> fresh_result h h' res
      \<and> kept_or_fresh h (max_ref nself) (max_ref self')
      \<and> kept_or_fresh h (min_ref nself) (min_ref self'))"
  using fit_mem_frame[of h self x] transform_mem_frame[of h self x]
    fit_transform_mem_frame[of h self x] reverse_mem_frame[of h self x]
    normalizer_fit_mem_frame[of h nself x] normalizer_transform_mem_frame[of h nself x]
    normalizer_fit_transform_mem_frame[of h nself x]
  by blast

text \<open>
  A run of \<^verbatim>\<open>transform\<close> on objects: the argument at position 0 and the statistics at
  positions 1 and 2 are as before, position 3 is the clone, overwritten twice, which is
  returned, and position 4 is the divisor.
\<close>

lemma transform_mem_example:
  "transform_mem [T2 [[0], [2]], T2 [[1]], T2 [[1]]] \<lparr>mean_ref = Some 1, std_ref = Some 2\<rparr> 0
     = ([T2 [[0], [2]], T2 [[1]], T2 [[1]],
         T2 [[- 1 / (1 + 1 / 10 ^ 10)], [1 / (1 + 1 / 10 ^ 10)]],
         T2 [[1 + 1 / 10 ^ 10]]], Inr 3)"
  by (simp add: transform_mem_def alloc_def Let_def idiv_def nonfinite_guard_def bmat_def
      bvec_def ncols_def)

end
